theory Spec2Isabelle
  imports Main "HOL-Library.Sublist"
begin

section \<open>django\_tex.core: the compile and print orchestration\<close>

text \<open>
  A shallow embedding of \<^verbatim>\<open>src/django_tex/core.py\<close>. The module is a sequential
  wrapper around a temporary directory, one shell call of the TeX interpreter and a
  finishing callback. Its effects are made explicit:
  \<^item> the file system is a map from path strings to nodes, passed through every call;
  \<^item> a raised exception is the \<open>Inl\<close> of a sum type;
  \<^item> each shell command run and each logger call is an \<open>event\<close>, returned in order;
  \<^item> the external shell, the name picked for the temporary directory and the Django
    settings are parameters.
  The platform is POSIX (\<^verbatim>\<open>os.path\<close> is \<^verbatim>\<open>posixpath\<close>, the line separator is a
  line feed). A Python \<^verbatim>\<open>str\<close> is represented by its UTF-8 encoding, so that
  \<^verbatim>\<open>str\<close> and \<^verbatim>\<open>bytes\<close> are both \<open>string\<close>, writing text is the identity and
  decoding is the identity on well-formed input and an error elsewhere.
\<close>

subsection \<open>Characters that need care inside string literals\<close>

abbreviation (input) dquote :: char where "dquote \<equiv> CHR 0x22"
abbreviation (input) squote :: char where "squote \<equiv> CHR 0x27"
abbreviation (input) sep :: char where "sep \<equiv> CHR ''/''"

subsection \<open>Exceptions\<close>

text \<open>
  Modelled from the spec: the module \<^verbatim>\<open>django_tex.exceptions\<close> (classes
  \<^verbatim>\<open>TexError\<close> and \<^verbatim>\<open>PrintError\<close>) is not part of the sources at hand. Following the
  spec, a \<open>TexError\<close> carries the log text and the source, a \<open>PrintError\<close> a message.
  The other constructors are Python built-ins; \<open>PyException\<close> is a plain
  \<^verbatim>\<open>Exception(msg)\<close>, and \<open>OtherError\<close> stands for any further exception that a
  callback or the process layer may raise (none of them a \<^verbatim>\<open>FileNotFoundError\<close>).
  The argument of \<open>FileNotFoundError\<close> is its message when the module raises it, and the
  offending path when a file operation does.
\<close>

datatype exn =
    ValueError string
  | FileExistsError string
  | FileNotFoundError string
  | NotADirectoryError string
  | IsADirectoryError string
  | UnicodeDecodeError
  | TexError string string
  | PrintError string
  | PyException string
  | OtherError string

text \<open>What \<^verbatim>\<open>except FileNotFoundError\<close> catches.\<close>

fun is_FileNotFoundError :: "exn \<Rightarrow> bool" where
  "is_FileNotFoundError (FileNotFoundError m) = True"
| "is_FileNotFoundError e = False"

fun is_TexError :: "exn \<Rightarrow> bool" where
  "is_TexError (TexError l s) = True"
| "is_TexError e = False"

subsection \<open>Text: UTF-8 and newline translation\<close>

text \<open>
  \<^verbatim>\<open>bytes.decode('utf-8')\<close> is strict: it accepts exactly the well-formed byte
  sequences of the Unicode standard (no overlong forms, no surrogates, nothing above
  U+10FFFF) and raises \<^verbatim>\<open>UnicodeDecodeError\<close> on anything else.
\<close>

definition cont :: "nat \<Rightarrow> bool" where
  "cont b = (0x80 \<le> b \<and> b \<le> 0xBF)"

fun utf8_ok :: "nat list \<Rightarrow> bool" where
  "utf8_ok [] = True"
| "utf8_ok [a] = (a < 0x80)"
| "utf8_ok [a, b] =
     (if a < 0x80 then utf8_ok [b] else 0xC2 \<le> a \<and> a \<le> 0xDF \<and> cont b)"
| "utf8_ok [a, b, c] =
     (if a < 0x80 then utf8_ok [b, c]
      else if 0xC2 \<le> a \<and> a \<le> 0xDF then cont b \<and> utf8_ok [c]
      else if a = 0xE0 then 0xA0 \<le> b \<and> b \<le> 0xBF \<and> cont c
      else if a = 0xED then 0x80 \<le> b \<and> b \<le> 0x9F \<and> cont c
      else 0xE1 \<le> a \<and> a \<le> 0xEF \<and> cont b \<and> cont c)"
| "utf8_ok (a # b # c # d # r) =
     (if a < 0x80 then utf8_ok (b # c # d # r)
      else if 0xC2 \<le> a \<and> a \<le> 0xDF then cont b \<and> utf8_ok (c # d # r)
      else if a = 0xE0 then 0xA0 \<le> b \<and> b \<le> 0xBF \<and> cont c \<and> utf8_ok (d # r)
      else if a = 0xED then 0x80 \<le> b \<and> b \<le> 0x9F \<and> cont c \<and> utf8_ok (d # r)
      else if 0xE1 \<le> a \<and> a \<le> 0xEF then cont b \<and> cont c \<and> utf8_ok (d # r)
      else if a = 0xF0 then 0x90 \<le> b \<and> b \<le> 0xBF \<and> cont c \<and> cont d \<and> utf8_ok r
      else if a = 0xF4 then 0x80 \<le> b \<and> b \<le> 0x8F \<and> cont c \<and> cont d \<and> utf8_ok r
      else 0xF1 \<le> a \<and> a \<le> 0xF3 \<and> cont b \<and> cont c \<and> cont d \<and> utf8_ok r)"

definition decode_utf8 :: "string \<Rightarrow> exn + string" where
  "decode_utf8 bs = (if utf8_ok (map of_char bs) then Inr bs else Inl UnicodeDecodeError)"

text \<open>
  Reading a file opened in text mode with the default \<^verbatim>\<open>newline=None\<close> turns each
  \<^verbatim>\<open>\r\n\<close> and each lone \<^verbatim>\<open>\r\<close> into \<^verbatim>\<open>\n\<close>. Writing on POSIX changes nothing.
\<close>

fun universal_newlines :: "string \<Rightarrow> string" where
  "universal_newlines [] = []"
| "universal_newlines [c] = (if c = CHR 0x0D then [CHR 0x0A] else [c])"
| "universal_newlines (c # d # r) =
     (if c = CHR 0x0D \<and> d = CHR 0x0A then CHR 0x0A # universal_newlines r
      else if c = CHR 0x0D then CHR 0x0A # universal_newlines (d # r)
      else c # universal_newlines (d # r))"

subsection \<open>Paths (posixpath)\<close>

type_synonym path = string

text \<open>\<^verbatim>\<open>os.path.join(a, b)\<close> with two arguments.\<close>

definition os_path_join :: "path \<Rightarrow> path \<Rightarrow> path" where
  "os_path_join a b =
     (if (b \<noteq> [] \<and> hd b = sep) \<or> a = [] then b
      else if last a = sep then a @ b
      else a @ [sep] @ b)"

text \<open>\<^verbatim>\<open>os.path.basename(p)\<close>: what follows the last separator.\<close>

definition os_path_basename :: "path \<Rightarrow> path" where
  "os_path_basename p = rev (takeWhile (\<lambda>c. c \<noteq> sep) (rev p))"

text \<open>\<^verbatim>\<open>os.path.dirname(p)\<close>: the head up to the last separator, trailing separators
  stripped unless the head consists of separators only.\<close>

definition os_path_dirname :: "path \<Rightarrow> path" where
  "os_path_dirname p =
     (let head = rev (dropWhile (\<lambda>c. c \<noteq> sep) (rev p))
      in if head \<noteq> [] \<and> \<not> list_all (\<lambda>c. c = sep) head
         then rev (dropWhile (\<lambda>c. c = sep) (rev head))
         else head)"

subsection \<open>The file system\<close>

text \<open>
  Paths are compared as strings: \<^verbatim>\<open>.\<close> and \<^verbatim>\<open>..\<close> components, repeated separators and
  symbolic links are not resolved, and permissions are not modelled.
\<close>

datatype node = File string | Dir

type_synonym filesystem = "path \<Rightarrow> node option"

definition os_path_isfile :: "filesystem \<Rightarrow> path \<Rightarrow> bool" where
  "os_path_isfile fs p = (case fs p of Some (File b) \<Rightarrow> True | _ \<Rightarrow> False)"

text \<open>
  \<^verbatim>\<open>open(p, 'x', encoding='utf-8')\<close> followed by \<^verbatim>\<open>f.write(text)\<close>: exclusive
  creation. In a file system where every entry lies in a directory the order of the two
  checks is immaterial.
\<close>

definition open_x_write :: "filesystem \<Rightarrow> path \<Rightarrow> string \<Rightarrow> exn + filesystem" where
  "open_x_write fs p text =
     (if fs p \<noteq> None then Inl (FileExistsError p)
      else case fs (os_path_dirname p) of
             None \<Rightarrow> Inl (FileNotFoundError p)
           | Some (File b) \<Rightarrow> Inl (NotADirectoryError p)
           | Some Dir \<Rightarrow> Inr (fs(p \<mapsto> File text)))"

text \<open>\<^verbatim>\<open>open(p, encoding='utf8')\<close> followed by \<^verbatim>\<open>f.read()\<close>.\<close>

definition open_read_text :: "filesystem \<Rightarrow> path \<Rightarrow> exn + string" where
  "open_read_text fs p =
     (case fs p of
        None \<Rightarrow> Inl (FileNotFoundError p)
      | Some Dir \<Rightarrow> Inl (IsADirectoryError p)
      | Some (File b) \<Rightarrow>
          (case decode_utf8 b of Inl e \<Rightarrow> Inl e | Inr s \<Rightarrow> Inr (universal_newlines s)))"

text \<open>\<^verbatim>\<open>open(p, 'rb')\<close> followed by \<^verbatim>\<open>f.read()\<close>.\<close>

definition open_read_bytes :: "filesystem \<Rightarrow> path \<Rightarrow> exn + string" where
  "open_read_bytes fs p =
     (case fs p of
        None \<Rightarrow> Inl (FileNotFoundError p)
      | Some Dir \<Rightarrow> Inl (IsADirectoryError p)
      | Some (File b) \<Rightarrow> Inr b)"

text \<open>The paths strictly below a directory.\<close>

definition inside :: "path \<Rightarrow> path \<Rightarrow> bool" where
  "inside d p =
     (if d \<noteq> [] \<and> last d = sep then prefix d p \<and> p \<noteq> d else prefix (d @ [sep]) p)"

text \<open>
  Leaving \<^verbatim>\<open>with tempfile.TemporaryDirectory()\<close> removes the directory and all below
  it; a directory that is already gone is not an error.
\<close>

definition rmtree :: "path \<Rightarrow> filesystem \<Rightarrow> filesystem" where
  "rmtree d fs = (\<lambda>p. if p = d \<or> inside d p then None else fs p)"

subsection \<open>The environment\<close>

text \<open>The \<^verbatim>\<open>CompletedProcess\<close> that \<^verbatim>\<open>subprocess.run\<close> returns.\<close>

record completed =
  returncode :: int
  stdout :: string
  stderr :: string

text \<open>
  \<open>shell\<close> is \<^verbatim>\<open>run(cmd, shell=True, stdout=PIPE, stderr=PIPE)\<close>: what the command
  does to the file system and what it returns, or the exception of the process layer.
  \<open>tmpname\<close> is the name \<^verbatim>\<open>tempfile.mkdtemp\<close> settles on.
\<close>

record env =
  shell :: "string \<Rightarrow> filesystem \<Rightarrow> (exn + completed) \<times> filesystem"
  tmpname :: "filesystem \<Rightarrow> path"

definition mkdtemp :: "env \<Rightarrow> filesystem \<Rightarrow> exn + (path \<times> filesystem)" where
  "mkdtemp e fs =
     (let d = tmpname e fs
      in if fs d \<noteq> None then Inl (FileExistsError d) else Inr (d, fs(d \<mapsto> Dir)))"

text \<open>
  \<^verbatim>\<open>django.conf.settings\<close>: each attribute is unset (\<open>None\<close>) or holds a value of its
  documented type. For \<open>LATEX_PRINTER\<close>, unset and \<^verbatim>\<open>None\<close> coincide.
\<close>

record settings =
  LATEX_INTERPRETER :: "string option"
  LATEX_RUN_COUNT :: "int option"
  LATEX_INTERPRETER_OPTIONS :: "string option"
  LATEX_PRINTER :: "string option"
  LATEX_UNIX_PRINT_COMMAND :: "string option"
  LATEX_UNIX_PRINT_OPTIONS :: "string option"

definition getattr :: "'a option \<Rightarrow> 'a \<Rightarrow> 'a" where
  "getattr attr dflt = (case attr of None \<Rightarrow> dflt | Some v \<Rightarrow> v)"

datatype level = DEBUG | WARNING

datatype event = Exec string | Log level string

fun is_Exec :: "event \<Rightarrow> bool" where
  "is_Exec (Exec c) = True"
| "is_Exec (Log l m) = False"

text \<open>The outcome of an effectful call: raised or returned, the file system after it,
  and the events it produced.\<close>

type_synonym 'r outcome = "(exn + 'r) \<times> filesystem \<times> event list"

text \<open>\<^verbatim>\<open>run(...)\<close> as the module calls it, with the command recorded.\<close>

definition run :: "env \<Rightarrow> string \<Rightarrow> filesystem \<Rightarrow> completed outcome" where
  "run e cmd fs = (case shell e cmd fs of (r, fs') \<Rightarrow> (r, fs', [Exec cmd]))"

subsection \<open>Module constants and shlex.quote\<close>

definition DEFAULT_INTERPRETER :: string where
  "DEFAULT_INTERPRETER = ''lualatex''"

definition DEFAULT_RUN_COUNT :: int where
  "DEFAULT_RUN_COUNT = 1"

definition PRINTING_DEVICE_OPTIONS :: "string \<Rightarrow> string option" where
  "PRINTING_DEVICE_OPTIONS = [''lp'' \<mapsto> ''-d {}'', ''lpr'' \<mapsto> ''-P {}'']"

text \<open>\<^verbatim>\<open>template.format(arg)\<close> for a template with one \<^verbatim>\<open>{}\<close> field, as both
  entries of the table are.\<close>

fun str_format :: "string \<Rightarrow> string \<Rightarrow> string" where
  "str_format [] a = []"
| "str_format [c] a = [c]"
| "str_format (c # d # r) a =
     (if c = CHR ''{'' \<and> d = CHR ''}'' then a @ r else c # str_format (d # r) a)"

text \<open>\<^verbatim>\<open>shlex.quote\<close>: the characters outside \<^verbatim>\<open>[A-Za-z0-9_@%+=:,./-]\<close> are unsafe.\<close>

definition safe_char :: "char \<Rightarrow> bool" where
  "safe_char c =
     (c \<in> set (''abcdefghijklmnopqrstuvwxyz'' @ ''ABCDEFGHIJKLMNOPQRSTUVWXYZ''
               @ ''0123456789'' @ ''_@%+=:,./-''))"

definition quote :: "string \<Rightarrow> string" where
  "quote s =
     (if s = [] then [squote, squote]
      else if list_all safe_char s then s
      else [squote]
           @ concat (map (\<lambda>c. if c = squote then [squote, dquote, squote, dquote, squote]
                               else [c]) s)
           @ [squote])"

subsection \<open>TexBuildCore\<close>

record TexBuildCore =
  source :: string
  base_filename :: string
  extra_printing_option :: string

text \<open>\<^verbatim>\<open>__init__(self, source, base_filename='texput')\<close>.\<close>

definition init :: "string \<Rightarrow> string \<Rightarrow> TexBuildCore" where
  "init src base =
     \<lparr>source = src, base_filename = base, extra_printing_option = []\<rparr>"

text \<open>
  A Python object given as \<^verbatim>\<open>call_back\<close>: either not callable, or a callable taking
  the directory and the file name. A callable acts on the file system and may raise.
\<close>

datatype 'r pyobj =
    NotCallable
  | Callable "path \<Rightarrow> string \<Rightarrow> filesystem \<Rightarrow> 'r outcome"

text \<open>Lines 46 to 50: the command, from the settings read at this point.\<close>

definition latex_call :: "settings \<Rightarrow> path \<Rightarrow> string" where
  "latex_call cfg filename =
     (let latex_interpreter = getattr (LATEX_INTERPRETER cfg) DEFAULT_INTERPRETER;
          latex_interpreter_options = getattr (LATEX_INTERPRETER_OPTIONS cfg) []
      in '' && '' @ latex_interpreter @ '' -interaction=batchmode ''
         @ latex_interpreter_options @ '' '' @ os_path_basename filename)"

definition latex_command :: "settings \<Rightarrow> path \<Rightarrow> path \<Rightarrow> string" where
  "latex_command cfg tempdir filename =
     (let latex_run_count = getattr (LATEX_RUN_COUNT cfg) DEFAULT_RUN_COUNT
      in ''cd '' @ [dquote] @ tempdir @ [dquote] @ '' ''
         @ concat (replicate (nat latex_run_count) (latex_call cfg filename)))"

text \<open>Lines 53 to 60: the body of the \<^verbatim>\<open>try\<close>.\<close>

definition try_body ::
  "TexBuildCore \<Rightarrow> (path \<Rightarrow> string \<Rightarrow> filesystem \<Rightarrow> 'r outcome) \<Rightarrow> path \<Rightarrow> completed
     \<Rightarrow> filesystem \<Rightarrow> 'r outcome" where
  "try_body self call_back tempdir process fs =
     (if returncode process = 1 then
        (case open_read_text fs (os_path_join tempdir ''texput.log'') of
           Inl e \<Rightarrow> (Inl e, fs, [])
         | Inr log \<Rightarrow> (Inl (TexError log (source self)), fs, []))
      else
        (let pdf_temp_file = os_path_join tempdir (base_filename self @ ''.pdf'')
         in if \<not> os_path_isfile fs pdf_temp_file
            then (Inl (FileNotFoundError
                         (''File '' @ pdf_temp_file @ '' not found or is not a file!'')),
                  fs, [])
            else call_back tempdir (base_filename self @ ''.pdf'') fs))"

text \<open>Lines 61 to 64: \<^verbatim>\<open>except FileNotFoundError\<close>.\<close>

definition except_FileNotFoundError :: "completed \<Rightarrow> 'r outcome \<Rightarrow> 'r outcome" where
  "except_FileNotFoundError process res =
     (case res of
        (Inr v, fs, evs) \<Rightarrow> (Inr v, fs, evs)
      | (Inl e, fs, evs) \<Rightarrow>
          (if is_FileNotFoundError e then
             (if stderr process \<noteq> [] then
                (case decode_utf8 (stderr process) of
                   Inl e' \<Rightarrow> (Inl e', fs, evs)
                 | Inr msg \<Rightarrow> (Inl (PyException msg), fs, evs))
              else (Inl e, fs, evs))
           else (Inl e, fs, evs)))"

text \<open>Lines 43 to 64: the body of the \<^verbatim>\<open>with\<close> block.\<close>

definition with_body ::
  "env \<Rightarrow> settings \<Rightarrow> TexBuildCore \<Rightarrow> (path \<Rightarrow> string \<Rightarrow> filesystem \<Rightarrow> 'r outcome) \<Rightarrow> path
     \<Rightarrow> filesystem \<Rightarrow> 'r outcome" where
  "with_body e cfg self call_back tempdir fs =
     (let filename = os_path_join tempdir (base_filename self @ ''.tex'')
      in case open_x_write fs filename (source self) of
           Inl ex \<Rightarrow> (Inl ex, fs, [])
         | Inr fs2 \<Rightarrow>
             (case run e (latex_command cfg tempdir filename) fs2 of
                (Inl ex, fs3, evs) \<Rightarrow> (Inl ex, fs3, evs)
              | (Inr process, fs3, evs) \<Rightarrow>
                  (case except_FileNotFoundError process
                          (try_body self call_back tempdir process fs3) of
                     (r, fs4, evs') \<Rightarrow> (r, fs4, evs @ evs'))))"

text \<open>\<^verbatim>\<open>_process_tex(self, call_back)\<close>.\<close>

definition process_tex ::
  "env \<Rightarrow> settings \<Rightarrow> TexBuildCore \<Rightarrow> 'r pyobj \<Rightarrow> filesystem \<Rightarrow> 'r outcome" where
  "process_tex e cfg self call_back fs =
     (case call_back of
        NotCallable \<Rightarrow>
          (Inl (ValueError ''parameter call_back needs to be callable!''), fs, [])
      | Callable cb \<Rightarrow>
          (case mkdtemp e fs of
             Inl ex \<Rightarrow> (Inl ex, fs, [])
           | Inr (tempdir, fs1) \<Rightarrow>
               (case with_body e cfg self cb tempdir fs1 of
                  (r, fs', evs) \<Rightarrow> (r, rmtree tempdir fs', evs))))"

text \<open>\<^verbatim>\<open>_get_pdf_worker(self, tempdir, pdf_filename)\<close>.\<close>

definition get_pdf_worker :: "path \<Rightarrow> string \<Rightarrow> filesystem \<Rightarrow> string outcome" where
  "get_pdf_worker tempdir pdf_filename fs =
     (open_read_bytes fs (os_path_join tempdir pdf_filename), fs, [])"

definition get_pdf :: "env \<Rightarrow> settings \<Rightarrow> TexBuildCore \<Rightarrow> filesystem \<Rightarrow> string outcome" where
  "get_pdf e cfg self fs = process_tex e cfg self (Callable get_pdf_worker) fs"

text \<open>Lines 75 to 86: the print command with its device option, and what is logged
  on the way.\<close>

definition print_command :: "settings \<Rightarrow> string \<times> event list" where
  "print_command cfg =
     (let printer = LATEX_PRINTER cfg;
          print_command = getattr (LATEX_UNIX_PRINT_COMMAND cfg) ''lpr''
      in case printer of
           None \<Rightarrow> (print_command, [Log DEBUG ''No default printer set, using default.''])
         | Some device \<Rightarrow>
             (case PRINTING_DEVICE_OPTIONS print_command of
                None \<Rightarrow>
                  (print_command,
                   [Log WARNING
                      (''The unknown custom printing command '' @ [squote] @ print_command
                       @ [squote] @ '' was defined and as well as a non default printer. ''
                       @ ''Please edit '' @ [squote] @ ''PRINTING_DEVICE_OPTIONS'' @ [squote]
                       @ '' in the module according to your needs.'')])
              | Some template \<Rightarrow>
                  (let device_selection = str_format template (quote device)
                   in (print_command @ '' '' @ device_selection, []))))"

text \<open>Line 87.\<close>

definition full_command :: "settings \<Rightarrow> TexBuildCore \<Rightarrow> path \<Rightarrow> string" where
  "full_command cfg self pdf_filename =
     (let print_options = getattr (LATEX_UNIX_PRINT_OPTIONS cfg) []
      in fst (print_command cfg) @ '' '' @ print_options @ '' ''
         @ extra_printing_option self @ '' '' @ quote pdf_filename)"

text \<open>\<^verbatim>\<open>_print_pdf_worker_unix(self, tempdir, pdf_filename)\<close>; it returns \<^verbatim>\<open>None\<close>.\<close>

definition print_pdf_worker_unix ::
  "env \<Rightarrow> settings \<Rightarrow> TexBuildCore \<Rightarrow> path \<Rightarrow> string \<Rightarrow> filesystem \<Rightarrow> unit outcome" where
  "print_pdf_worker_unix e cfg self tempdir pdf_filename0 fs =
     (let pdf_filename = os_path_join tempdir pdf_filename0;
          evs0 = snd (print_command cfg);
          full = full_command cfg self pdf_filename
      in case run e full fs of
           (Inl ex, fs', evs) \<Rightarrow> (Inl ex, fs', evs0 @ evs)
         | (Inr process, fs', evs) \<Rightarrow>
             (if returncode process \<noteq> 0 then
                (case decode_utf8 (stderr process) of
                   Inl ex \<Rightarrow> (Inl ex, fs', evs0 @ evs)
                 | Inr err \<Rightarrow>
                     (Inl (PrintError (''Printing with '' @ [squote] @ full @ [squote]
                                       @ '' resulted in an error. '' @ [squote] @ err
                                       @ [squote])),
                      fs', evs0 @ evs))
              else if length (stderr process) > 0 then
                (case decode_utf8 (stderr process) of
                   Inl ex \<Rightarrow> (Inl ex, fs', evs0 @ evs)
                 | Inr err \<Rightarrow>
                     (Inr (), fs',
                      evs0 @ evs
                      @ [Log WARNING
                           (''Printing with '' @ [squote] @ full @ [squote]
                            @ '' did not result in an error but still wrote something, ''
                            @ ''to stderr. '' @ [squote, squote] @ err)]))
              else (Inr (), fs', evs0 @ evs)))"

text \<open>\<^verbatim>\<open>print_pdf_unix(self, extra_printing_option="")\<close>: the option is stored in the
  object first; the object is returned with the outcome.\<close>

definition print_pdf_unix ::
  "env \<Rightarrow> settings \<Rightarrow> TexBuildCore \<Rightarrow> string \<Rightarrow> filesystem \<Rightarrow> TexBuildCore \<times> unit outcome" where
  "print_pdf_unix e cfg self0 extra fs =
     (let self = self0\<lparr>extra_printing_option := extra\<rparr>
      in (self, process_tex e cfg self (Callable (print_pdf_worker_unix e cfg self)) fs))"

subsection \<open>Module functions\<close>

definition run_tex :: "env \<Rightarrow> settings \<Rightarrow> string \<Rightarrow> filesystem \<Rightarrow> string outcome" where
  "run_tex e cfg src fs = get_pdf e cfg (init src ''texput'') fs"

text \<open>
  \<^verbatim>\<open>render_template_with_context\<close> hands over to Django's template engine, which is
  a parameter here: \<open>render template_name context\<close> returns the text or raises.
\<close>

definition compile_template_to_pdf ::
  "env \<Rightarrow> settings \<Rightarrow> (string \<Rightarrow> 'c \<Rightarrow> exn + string) \<Rightarrow> string \<Rightarrow> 'c \<Rightarrow> filesystem
     \<Rightarrow> string outcome" where
  "compile_template_to_pdf e cfg render template_name context fs =
     (case render template_name context of
        Inl ex \<Rightarrow> (Inl ex, fs, [])
      | Inr src \<Rightarrow> run_tex e cfg src fs)"

definition compile_template_and_sent_to_printer ::
  "env \<Rightarrow> settings \<Rightarrow> (string \<Rightarrow> 'c \<Rightarrow> exn + string) \<Rightarrow> string \<Rightarrow> 'c \<Rightarrow> string \<Rightarrow> filesystem
     \<Rightarrow> unit outcome" where
  "compile_template_and_sent_to_printer e cfg render template_name context extra_options fs =
     (case render template_name context of
        Inl ex \<Rightarrow> (Inl ex, fs, [])
      | Inr src \<Rightarrow> snd (print_pdf_unix e cfg (init src ''texput'') extra_options fs))"

subsection \<open>Compile attempts and a concrete environment\<close>

text \<open>
  A compile attempt that gets as far as the interpreter: the temporary directory
  \<open>tempdir\<close> was created, the source was written into it, and the shell returned
  \<open>process\<close>, leaving the file system \<open>fs3\<close>.
\<close>

definition compile_attempt ::
  "env \<Rightarrow> settings \<Rightarrow> TexBuildCore \<Rightarrow> filesystem \<Rightarrow> path \<Rightarrow> completed \<Rightarrow> filesystem \<Rightarrow> bool" where
  "compile_attempt e cfg self fs tempdir process fs3 =
     (case mkdtemp e fs of
        Inl ex \<Rightarrow> False
      | Inr (d, fs1) \<Rightarrow>
          d = tempdir \<and>
          (case open_x_write fs1 (os_path_join d (base_filename self @ ''.tex'')) (source self) of
             Inl ex \<Rightarrow> False
           | Inr fs2 \<Rightarrow>
               shell e (latex_command cfg d (os_path_join d (base_filename self @ ''.tex''))) fs2
                 = (Inr process, fs3)))"

text \<open>
  An environment to run the module in: the temporary directory is always
  \<^verbatim>\<open>/tmp/tmpk3x9\<close>; a command starting with \<^verbatim>\<open>cd\<close> (the interpreter call) returns
  \<open>tex\<close> and leaves the files \<open>out\<close>; any other command (the print call) returns \<open>lp\<close>.
\<close>

definition demo_shell ::
  "completed \<Rightarrow> (path \<times> node) list \<Rightarrow> completed \<Rightarrow> string \<Rightarrow> filesystem
     \<Rightarrow> (exn + completed) \<times> filesystem" where
  "demo_shell tex out lp cmd fs =
     (if take 3 cmd = ''cd '' then (Inr tex, fs ++ map_of out) else (Inr lp, fs))"

definition demo_env :: "completed \<Rightarrow> (path \<times> node) list \<Rightarrow> completed \<Rightarrow> env" where
  "demo_env tex out lp = \<lparr>shell = demo_shell tex out lp, tmpname = (\<lambda>fs. ''/tmp/tmpk3x9'')\<rparr>"

definition exited :: "int \<Rightarrow> string \<Rightarrow> completed" where
  "exited rc err = \<lparr>returncode = rc, stdout = [], stderr = err\<rparr>"

definition demo_fs :: filesystem where
  "demo_fs = [''/tmp'' \<mapsto> Dir, ''/srv'' \<mapsto> Dir, ''/srv/report.tex'' \<mapsto> File ''old'']"

definition unset :: settings where
  "unset = \<lparr>LATEX_INTERPRETER = None, LATEX_RUN_COUNT = None,
            LATEX_INTERPRETER_OPTIONS = None, LATEX_PRINTER = None,
            LATEX_UNIX_PRINT_COMMAND = None, LATEX_UNIX_PRINT_OPTIONS = None\<rparr>"

text \<open>A callback that raises \<^verbatim>\<open>FileNotFoundError('gone')\<close>, and one that returns 7.\<close>

definition raising_callback :: "path \<Rightarrow> string \<Rightarrow> filesystem \<Rightarrow> nat outcome" where
  "raising_callback tempdir pdf fs = (Inl (FileNotFoundError ''gone''), fs, [])"

definition returning_callback :: "path \<Rightarrow> string \<Rightarrow> filesystem \<Rightarrow> nat outcome" where
  "returning_callback tempdir pdf fs = (Inr 7, fs, [])"

text \<open>The file system of the environment above once the interpreter has returned: the
  temporary directory, the source file \<open>tex\<close> and the files \<open>out\<close> are there.\<close>

definition demo_after :: "path \<Rightarrow> string \<Rightarrow> (path \<times> node) list \<Rightarrow> filesystem" where
  "demo_after tex src out =
     (demo_fs(''/tmp/tmpk3x9'' \<mapsto> Dir, tex \<mapsto> File src)) ++ map_of out"

text \<open>A command leaves a directory in place when running it never removes it.\<close>

definition leaves_in_place :: "env \<Rightarrow> string \<Rightarrow> path \<Rightarrow> bool" where
  "leaves_in_place e cmd d = (\<forall>f. f d = Some Dir \<longrightarrow> snd (shell e cmd f) d = Some Dir)"

text \<open>A callback that raises something other than \<^verbatim>\<open>FileNotFoundError\<close>.\<close>

definition failing_callback :: "path \<Rightarrow> string \<Rightarrow> filesystem \<Rightarrow> nat outcome" where
  "failing_callback tempdir pdf fs = (Inl (OtherError ''disk full''), fs, [])"

text \<open>An environment whose interpreter call prints the source file it finds on stderr
  and produces nothing.\<close>

definition cat_env :: env where
  "cat_env =
     \<lparr>shell = (\<lambda>cmd fs.
         (Inr \<lparr>returncode = 0, stdout = [],
               stderr = (case fs ''/tmp/tmpk3x9/texput.tex'' of
                           Some (File b) \<Rightarrow> b | _ \<Rightarrow> ''no input file'')\<rparr>, fs)),
       tmpname = (\<lambda>fs. ''/tmp/tmpk3x9'')\<rparr>"

section \<open>Properties\<close>

subsection \<open>Auxiliary facts\<close>

lemmas demo_defs = demo_env_def demo_shell_def exited_def demo_fs_def unset_def
  raising_callback_def returning_callback_def init_def demo_after_def

lemmas fs_defs = mkdtemp_def open_x_write_def open_read_text_def os_path_isfile_def
  os_path_join_def os_path_basename_def os_path_dirname_def decode_utf8_def
  rmtree_def inside_def

text \<open>Once the interpreter has returned, the outcome is that of the \<^verbatim>\<open>try\<close> statement,
  followed by the removal of the directory.\<close>

lemma process_tex_attempt:
  assumes "compile_attempt e cfg self fs tempdir process fs3"
  shows "process_tex e cfg self (Callable cb) fs =
     (case except_FileNotFoundError process (try_body self cb tempdir process fs3) of
        (r, fs4, evs) \<Rightarrow>
          (r, rmtree tempdir fs4,
           Exec (latex_command cfg tempdir
                   (os_path_join tempdir (base_filename self @ ''.tex''))) # evs))"
  using assms
  by (auto simp: compile_attempt_def process_tex_def with_body_def run_def Let_def
           split: sum.splits prod.splits)

lemma except_Inr [simp]:
  "except_FileNotFoundError process (Inr v, fs, evs) = (Inr v, fs, evs)"
  by (simp add: except_FileNotFoundError_def)

lemma except_other [simp]:
  "\<not> is_FileNotFoundError ex \<Longrightarrow>
     except_FileNotFoundError process (Inl ex, fs, evs) = (Inl ex, fs, evs)"
  by (simp add: except_FileNotFoundError_def)

lemma except_quiet [simp]:
  "stderr process = [] \<Longrightarrow>
     except_FileNotFoundError process (Inl ex, fs, evs) = (Inl ex, fs, evs)"
  by (simp add: except_FileNotFoundError_def)

lemma except_caught:
  "is_FileNotFoundError ex \<Longrightarrow> stderr process \<noteq> [] \<Longrightarrow>
     decode_utf8 (stderr process) = Inr msg \<Longrightarrow>
     except_FileNotFoundError process (Inl ex, fs, evs) = (Inl (PyException msg), fs, evs)"
  by (simp add: except_FileNotFoundError_def)

text \<open>The base name of a joined path is its second part when that has no separator.\<close>

lemma basename_join:
  assumes "sep \<notin> set b"
  shows "os_path_basename (os_path_join a b) = b"
proof -
  have tw: "takeWhile (\<lambda>c. c \<noteq> sep) (rev b) = rev b"
    using assms by (auto simp: takeWhile_eq_all_conv)
  have tw2: "takeWhile (\<lambda>c. c \<noteq> sep) (rev b @ sep # xs) = rev b" for xs
  proof -
    have "takeWhile (\<lambda>c. c \<noteq> sep) (rev b @ sep # xs)
            = rev b @ takeWhile (\<lambda>c. c \<noteq> sep) (sep # xs)"
      using assms by (intro takeWhile_append2) auto
    then show ?thesis by simp
  qed
  have nb: "\<not> (b \<noteq> [] \<and> hd b = sep)"
    using assms by (cases b) auto
  show ?thesis
  proof (cases "a = []")
    case True
    with nb show ?thesis by (simp add: os_path_basename_def os_path_join_def tw)
  next
    case a: False
    show ?thesis
    proof (cases "last a = sep")
      case True
      with a obtain a' where "a = a' @ [sep]"
        by (metis append_butlast_last_id)
      with nb show ?thesis
        by (auto simp: os_path_basename_def os_path_join_def tw2)
    next
      case False
      with a nb show ?thesis
        by (auto simp: os_path_basename_def os_path_join_def tw2)
    qed
  qed
qed

text \<open>In the concrete environment every attempt reaches the interpreter.\<close>

lemma latex_command_cd: "take 3 (latex_command cfg d f) = ''cd ''"
  by (simp add: latex_command_def)

lemma demo_attempt:
  "compile_attempt (demo_env tex out lp) cfg (init src ''texput'') demo_fs ''/tmp/tmpk3x9'' tex
     (demo_after ''/tmp/tmpk3x9/texput.tex'' src out)"
  by (simp add: compile_attempt_def demo_defs fs_defs Let_def latex_command_cd)

lemma demo_attempt_report:
  "compile_attempt (demo_env tex out lp) cfg (init src ''report'') demo_fs ''/tmp/tmpk3x9'' tex
     (demo_after ''/tmp/tmpk3x9/report.tex'' src out)"
  by (simp add: compile_attempt_def demo_defs fs_defs Let_def latex_command_cd)

text \<open>The handler changes neither the file system nor the events.\<close>

lemma except_snd [simp]:
  "snd (except_FileNotFoundError process res) = snd res"
proof (cases res)
  case (fields r fs evs)
  then show ?thesis
    by (cases r) (simp_all add: except_FileNotFoundError_def split: sum.splits)
qed

lemma rmtree_self [simp]: "rmtree d fs d = None"
  by (simp add: rmtree_def)

lemma rmtree_inside [simp]: "inside d p \<Longrightarrow> rmtree d fs p = None"
  by (simp add: rmtree_def)

text \<open>Whatever the body of the \<^verbatim>\<open>with\<close> block does, the directory is removed after it.\<close>

lemma process_tex_removes:
  assumes "mkdtemp e fs = Inr (tempdir, fs1)"
  shows "fst (snd (process_tex e cfg self (Callable cb) fs)) =
           rmtree tempdir (fst (snd (with_body e cfg self cb tempdir fs1)))"
proof -
  obtain r fs' evs where "with_body e cfg self cb tempdir fs1 = (r, fs', evs)"
    by (cases "with_body e cfg self cb tempdir fs1") auto
  with assms show ?thesis
    by (simp add: process_tex_def)
qed

text \<open>The module itself leaves the directory alone between creating it and calling the
  interpreter.\<close>

lemma attempt_keeps_directory:
  assumes "compile_attempt e cfg self fs tempdir process fs3"
    and "leaves_in_place e
           (latex_command cfg tempdir (os_path_join tempdir (base_filename self @ ''.tex'')))
           tempdir"
  shows "fs3 tempdir = Some Dir"
proof -
  let ?p = "os_path_join tempdir (base_filename self @ ''.tex'')"
  from assms(1) obtain fs1 where
    mk: "mkdtemp e fs = Inr (tempdir, fs1)" and
    r1: "case open_x_write fs1 ?p (source self) of
           Inl ex \<Rightarrow> False
         | Inr fs2 \<Rightarrow> shell e (latex_command cfg tempdir ?p) fs2 = (Inr process, fs3)"
    by (cases "mkdtemp e fs") (auto simp: compile_attempt_def)
  from r1 obtain fs2 where
    wr: "open_x_write fs1 ?p (source self) = Inr fs2" and
    sh: "shell e (latex_command cfg tempdir ?p) fs2 = (Inr process, fs3)"
    by (cases "open_x_write fs1 ?p (source self)") simp_all
  from mk have "fs1 tempdir = Some Dir"
    by (auto simp: mkdtemp_def Let_def split: if_splits)
  with wr have "fs2 tempdir = Some Dir"
    by (auto simp: open_x_write_def split: if_splits option.splits node.splits)
  with assms(2) have "snd (shell e (latex_command cfg tempdir ?p) fs2) tempdir = Some Dir"
    by (simp add: leaves_in_place_def)
  with sh show ?thesis
    by simp
qed

text \<open>The print worker runs exactly one command, after the log of the device selection.\<close>

lemma worker_events:
  "\<exists>post. snd (snd (print_pdf_worker_unix e cfg self tempdir pdf fs)) =
      snd (print_command cfg) @ Exec (full_command cfg self (os_path_join tempdir pdf)) # post
      \<and> list_all (\<lambda>ev. \<not> is_Exec ev) post"
  by (auto simp: print_pdf_worker_unix_def run_def Let_def split: prod.splits sum.splits)

lemma print_command_no_Exec: "list_all (\<lambda>ev. \<not> is_Exec ev) (snd (print_command cfg))"
  by (auto simp: print_command_def Let_def split: option.splits)

lemma filter_no_Exec: "list_all (\<lambda>ev. \<not> is_Exec ev) xs \<Longrightarrow> filter is_Exec xs = []"
  by (induction xs) auto

lemma takeWhile_no_Exec:
  "list_all (\<lambda>ev. \<not> is_Exec ev) xs \<Longrightarrow>
     takeWhile (\<lambda>ev. \<not> is_Exec ev) (xs @ Exec c # ys) = xs"
  by (induction xs) auto

lemma worker_one_command:
  "filter is_Exec (snd (snd (print_pdf_worker_unix e cfg self tempdir pdf fs))) =
     [Exec (full_command cfg self (os_path_join tempdir pdf))]"
  using worker_events [of e cfg self tempdir pdf fs] print_command_no_Exec [of cfg]
  by (auto simp: filter_no_Exec)

lemma worker_log_first:
  "takeWhile (\<lambda>ev. \<not> is_Exec ev) (snd (snd (print_pdf_worker_unix e cfg self tempdir pdf fs))) =
     snd (print_command cfg)"
  using worker_events [of e cfg self tempdir pdf fs] print_command_no_Exec [of cfg]
  by (auto simp: takeWhile_no_Exec)

lemma full_command_unknown:
  assumes "PRINTING_DEVICE_OPTIONS (getattr (LATEX_UNIX_PRINT_COMMAND cfg) ''lpr'') = None"
  shows "full_command (cfg\<lparr>LATEX_PRINTER := None\<rparr>) self p = full_command cfg self p"
  using assms
  by (simp add: full_command_def print_command_def Let_def split: option.splits)

lemma worker_fst:
  "fst (print_pdf_worker_unix e cfg self tempdir pdf fs) =
     (case shell e (full_command cfg self (os_path_join tempdir pdf)) fs of
        (Inl ex, fs') \<Rightarrow> Inl ex
      | (Inr process, fs') \<Rightarrow>
          (if returncode process \<noteq> 0 then
             (case decode_utf8 (stderr process) of
                Inl ex \<Rightarrow> Inl ex
              | Inr err \<Rightarrow>
                  Inl (PrintError
                         (''Printing with '' @ [squote]
                          @ full_command cfg self (os_path_join tempdir pdf) @ [squote]
                          @ '' resulted in an error. '' @ [squote] @ err @ [squote])))
           else if stderr process \<noteq> [] then
             (case decode_utf8 (stderr process) of Inl ex \<Rightarrow> Inl ex | Inr err \<Rightarrow> Inr ())
           else Inr ()))"
  by (auto simp: print_pdf_worker_unix_def run_def Let_def split: prod.splits sum.splits)

subsection \<open>Exit code 1\<close>

text \<open>
  C1, as stated: every attempt whose interpreter exits with 1 raises a \<open>TexError\<close>
  with the text of \<^verbatim>\<open>texput.log\<close>. This fails when \<^verbatim>\<open>texput.log\<close> is not there: the
  command exits with 1 without having written a log and with nothing on stderr, and the
  \<^verbatim>\<open>FileNotFoundError\<close> of the failed \<^verbatim>\<open>open\<close> is what the caller gets.
\<close>

theorem exit_one_without_texput_log:
  "compile_attempt (demo_env (exited 1 []) [] (exited 0 [])) unset (init ''x'' ''texput'')
     demo_fs ''/tmp/tmpk3x9'' (exited 1 []) (demo_after ''/tmp/tmpk3x9/texput.tex'' ''x'' [])
   \<and> returncode (exited 1 []) = 1
   \<and> fst (process_tex (demo_env (exited 1 []) [] (exited 0 [])) unset (init ''x'' ''texput'')
            (Callable returning_callback) demo_fs)
       = Inl (FileNotFoundError ''/tmp/tmpk3x9/texput.log'')"
proof -
  have a: "compile_attempt (demo_env (exited 1 []) [] (exited 0 [])) unset
             (init ''x'' ''texput'') demo_fs ''/tmp/tmpk3x9'' (exited 1 [])
             (demo_after ''/tmp/tmpk3x9/texput.tex'' ''x'' [])"
    by (rule demo_attempt)
  have b: "returncode (exited 1 []) = 1"
    by (simp add: exited_def)
  have c: "demo_after ''/tmp/tmpk3x9/texput.tex'' ''x'' [] ''/tmp/tmpk3x9/texput.log'' = None"
    by (simp add: demo_defs)
  have d: "stderr (exited 1 []) = []"
    by (simp add: exited_def)
  show ?thesis
    using a b
    by (simp add: process_tex_attempt [OF a] try_body_def open_read_text_def c d
          os_path_join_def)
qed

text \<open>
  C1, amended: when the interpreter exits with 1 and \<^verbatim>\<open>texput.log\<close> is a regular file
  of the directory whose content is valid UTF-8, a \<open>TexError\<close> is raised that carries
  the text of that file, as text-mode reading returns it, and the source unchanged.
  Nothing else is run, and the directory is removed.
\<close>

theorem exit_one_raises_TexError:
  assumes "compile_attempt e cfg self fs tempdir process fs3"
    and "returncode process = 1"
    and "fs3 (os_path_join tempdir ''texput.log'') = Some (File bytes)"
    and "decode_utf8 bytes = Inr text"
  shows "process_tex e cfg self (Callable cb) fs =
           (Inl (TexError (universal_newlines text) (source self)), rmtree tempdir fs3,
            [Exec (latex_command cfg tempdir
                     (os_path_join tempdir (base_filename self @ ''.tex'')))])"
  using assms(2-4)
  by (simp add: process_tex_attempt [OF assms(1)] try_body_def open_read_text_def)

text \<open>The amended C1 at work: exit code 1 with a \<^verbatim>\<open>texput.log\<close> in place.\<close>

theorem exit_one_raises_TexError_witness:
  "compile_attempt
      (demo_env (exited 1 []) [(''/tmp/tmpk3x9/texput.log'', File ''! Undefined'')]
         (exited 0 []))
      unset (init ''x'' ''texput'') demo_fs ''/tmp/tmpk3x9'' (exited 1 [])
      (demo_after ''/tmp/tmpk3x9/texput.tex'' ''x''
         [(''/tmp/tmpk3x9/texput.log'', File ''! Undefined'')])
   \<and> fst (process_tex
            (demo_env (exited 1 []) [(''/tmp/tmpk3x9/texput.log'', File ''! Undefined'')]
               (exited 0 []))
            unset (init ''x'' ''texput'') (Callable returning_callback) demo_fs)
       = Inl (TexError ''! Undefined'' ''x'')"
proof -
  let ?out = "[(''/tmp/tmpk3x9/texput.log'', File ''! Undefined'')]"
  let ?E = "demo_env (exited 1 []) ?out (exited 0 [])"
  let ?fs3 = "demo_after ''/tmp/tmpk3x9/texput.tex'' ''x'' ?out"
  have h1: "compile_attempt ?E unset (init ''x'' ''texput'') demo_fs ''/tmp/tmpk3x9''
              (exited 1 []) ?fs3"
    by (rule demo_attempt)
  have h2: "returncode (exited 1 []) = 1"
    by (simp add: exited_def)
  have h3: "?fs3 (os_path_join ''/tmp/tmpk3x9'' ''texput.log'') = Some (File ''! Undefined'')"
    by (simp add: demo_defs fs_defs)
  have h4: "decode_utf8 ''! Undefined'' = Inr ''! Undefined''"
    by (simp add: decode_utf8_def)
  show ?thesis
    using h1 exit_one_raises_TexError [where cb = returning_callback, OF h1 h2 h3 h4]
    by (simp add: init_def)
qed

subsection \<open>Other exit codes: the artifact decides\<close>

text \<open>
  C2: whatever the exit code other than 1 is (2, say), once
  \<^verbatim>\<open><workspace>/<base_filename>.pdf\<close> is a regular file the callback is called with the
  directory and the file name on the file system the interpreter left, and what it
  returns is returned; its events follow the interpreter call, and the directory is
  removed from the file system it leaves.
\<close>

theorem artifact_check_gates_success:
  assumes "compile_attempt e cfg self fs tempdir process fs3"
    and "returncode process \<noteq> 1"
    and "os_path_isfile fs3 (os_path_join tempdir (base_filename self @ ''.pdf''))"
    and "cb tempdir (base_filename self @ ''.pdf'') fs3 = (Inr v, fs4, evs)"
  shows "process_tex e cfg self (Callable cb) fs =
           (Inr v, rmtree tempdir fs4,
            Exec (latex_command cfg tempdir
                    (os_path_join tempdir (base_filename self @ ''.tex''))) # evs)"
  using assms(2-4)
  by (simp add: process_tex_attempt [OF assms(1)] try_body_def)

text \<open>C2 at work: the interpreter exits with 2 and noise on stderr, the PDF is there,
  and the callback's 7 comes back.\<close>

theorem artifact_check_gates_success_witness:
  "returncode (exited 2 ''warning'') \<noteq> 1
   \<and> process_tex
       (demo_env (exited 2 ''warning'') [(''/tmp/tmpk3x9/texput.pdf'', File ''%PDF'')]
          (exited 0 []))
       unset (init ''x'' ''texput'') (Callable returning_callback) demo_fs
     = (Inr 7,
        rmtree ''/tmp/tmpk3x9''
          (demo_after ''/tmp/tmpk3x9/texput.tex'' ''x''
             [(''/tmp/tmpk3x9/texput.pdf'', File ''%PDF'')]),
        [Exec (latex_command unset ''/tmp/tmpk3x9'' ''/tmp/tmpk3x9/texput.tex'')])"
proof -
  let ?out = "[(''/tmp/tmpk3x9/texput.pdf'', File ''%PDF'')]"
  let ?fs3 = "demo_after ''/tmp/tmpk3x9/texput.tex'' ''x'' ?out"
  have a: "compile_attempt (demo_env (exited 2 ''warning'') ?out (exited 0 [])) unset
             (init ''x'' ''texput'') demo_fs ''/tmp/tmpk3x9'' (exited 2 ''warning'') ?fs3"
    by (rule demo_attempt)
  have b: "returncode (exited 2 ''warning'') \<noteq> 1"
    by (simp add: exited_def)
  have c: "os_path_isfile ?fs3
             (os_path_join ''/tmp/tmpk3x9'' (base_filename (init ''x'' ''texput'') @ ''.pdf''))"
    by (simp add: demo_defs fs_defs)
  have d: "returning_callback ''/tmp/tmpk3x9'' (base_filename (init ''x'' ''texput'') @ ''.pdf'')
             ?fs3 = (Inr 7, ?fs3, [])"
    by (simp add: returning_callback_def)
  show ?thesis
    using b artifact_check_gates_success [where cb = returning_callback, OF a b c d]
    by (simp add: init_def os_path_join_def)
qed

text \<open>
  C3, as stated: with an exit code other than 1, no PDF and something on stderr, the
  error raised has stderr, decoded, as its message. This fails when stderr is not valid
  UTF-8: for the single byte \<^verbatim>\<open>0xFF\<close> the decoding inside the handler raises, and the
  caller gets the \<^verbatim>\<open>UnicodeDecodeError\<close>.
\<close>

theorem missing_artifact_undecodable_stderr:
  "compile_attempt (demo_env (exited 0 [CHR 0xFF]) [] (exited 0 [])) unset
     (init ''x'' ''texput'') demo_fs ''/tmp/tmpk3x9'' (exited 0 [CHR 0xFF])
     (demo_after ''/tmp/tmpk3x9/texput.tex'' ''x'' [])
   \<and> returncode (exited 0 [CHR 0xFF]) \<noteq> 1
   \<and> \<not> os_path_isfile (demo_after ''/tmp/tmpk3x9/texput.tex'' ''x'' [])
         ''/tmp/tmpk3x9/texput.pdf''
   \<and> stderr (exited 0 [CHR 0xFF]) \<noteq> []
   \<and> fst (process_tex (demo_env (exited 0 [CHR 0xFF]) [] (exited 0 [])) unset
            (init ''x'' ''texput'') (Callable returning_callback) demo_fs)
       = Inl UnicodeDecodeError"
proof -
  let ?fs3 = "demo_after ''/tmp/tmpk3x9/texput.tex'' ''x'' []"
  have a: "compile_attempt (demo_env (exited 0 [CHR 0xFF]) [] (exited 0 [])) unset
             (init ''x'' ''texput'') demo_fs ''/tmp/tmpk3x9'' (exited 0 [CHR 0xFF]) ?fs3"
    by (rule demo_attempt)
  have b: "returncode (exited 0 [CHR 0xFF]) \<noteq> 1" and c: "stderr (exited 0 [CHR 0xFF]) \<noteq> []"
    by (simp_all add: exited_def)
  have pdf: "\<not> os_path_isfile ?fs3 ''/tmp/tmpk3x9/texput.pdf''"
    by (simp add: demo_defs os_path_isfile_def)
  have d: "decode_utf8 [CHR 0xFF] = Inl UnicodeDecodeError"
    by (simp add: decode_utf8_def)
  have "fst (process_tex (demo_env (exited 0 [CHR 0xFF]) [] (exited 0 [])) unset
               (init ''x'' ''texput'') (Callable returning_callback) demo_fs)
          = Inl UnicodeDecodeError"
    unfolding process_tex_attempt [OF a]
    by (simp add: try_body_def pdf os_path_join_def init_def exited_def
          except_FileNotFoundError_def d)
  with a b c pdf show ?thesis
    by simp
qed

text \<open>
  C3, amended: when the exit code is not 1 and \<^verbatim>\<open><workspace>/<base_filename>.pdf\<close> is
  not a regular file, an error is raised: with nothing on stderr the
  \<^verbatim>\<open>FileNotFoundError\<close> whose message names the missing path, and with something on
  stderr that is valid UTF-8 an \<^verbatim>\<open>Exception\<close> whose message is stderr decoded
  (\<open>msg\<close> is that decoded text).
\<close>

theorem missing_artifact_error:
  assumes "compile_attempt e cfg self fs tempdir process fs3"
    and "returncode process \<noteq> 1"
    and "\<not> os_path_isfile fs3 (os_path_join tempdir (base_filename self @ ''.pdf''))"
  shows "(stderr process = [] \<longrightarrow>
            fst (process_tex e cfg self (Callable cb) fs) =
              Inl (FileNotFoundError
                     (''File '' @ os_path_join tempdir (base_filename self @ ''.pdf'')
                      @ '' not found or is not a file!'')))
       \<and> (stderr process \<noteq> [] \<and> decode_utf8 (stderr process) = Inr msg \<longrightarrow>
            fst (process_tex e cfg self (Callable cb) fs) = Inl (PyException msg))"
  using assms(2-3)
  by (simp add: process_tex_attempt [OF assms(1)] try_body_def except_caught)

text \<open>The amended C3 at work: exit code 0 and no PDF, once with a silent interpreter
  and once with \<^verbatim>\<open>boom\<close> on stderr.\<close>

theorem missing_artifact_error_witness:
  "fst (process_tex (demo_env (exited 0 []) [] (exited 0 [])) unset (init ''x'' ''texput'')
          (Callable returning_callback) demo_fs)
     = Inl (FileNotFoundError ''File /tmp/tmpk3x9/texput.pdf not found or is not a file!'')
   \<and> fst (process_tex (demo_env (exited 0 ''boom'') [] (exited 0 [])) unset
            (init ''x'' ''texput'') (Callable returning_callback) demo_fs)
     = Inl (PyException ''boom'')"
proof -
  let ?fs3 = "demo_after ''/tmp/tmpk3x9/texput.tex'' ''x'' []"
  have a1: "compile_attempt (demo_env (exited 0 []) [] (exited 0 [])) unset
              (init ''x'' ''texput'') demo_fs ''/tmp/tmpk3x9'' (exited 0 []) ?fs3"
    by (rule demo_attempt)
  have a2: "compile_attempt (demo_env (exited 0 ''boom'') [] (exited 0 [])) unset
              (init ''x'' ''texput'') demo_fs ''/tmp/tmpk3x9'' (exited 0 ''boom'') ?fs3"
    by (rule demo_attempt)
  have b1: "returncode (exited 0 []) \<noteq> 1" and b2: "returncode (exited 0 ''boom'') \<noteq> 1"
    by (simp_all add: exited_def)
  have c: "\<not> os_path_isfile ?fs3
             (os_path_join ''/tmp/tmpk3x9'' (base_filename (init ''x'' ''texput'') @ ''.pdf''))"
    by (simp add: demo_defs fs_defs)
  have d: "decode_utf8 ''boom'' = Inr ''boom''"
    by (simp add: decode_utf8_def)
  show ?thesis
    using missing_artifact_error [where cb = returning_callback, OF a1 b1 c]
      missing_artifact_error [where cb = returning_callback and msg = "''boom''", OF a2 b2 c] d
    by (simp add: exited_def init_def os_path_join_def)
qed

subsection \<open>The interpreter command\<close>

text \<open>
  C4: the first thing an attempt runs, in one shell call, is
  \<^verbatim>\<open>cd "<workspace>"\<close>, a space, and then as many copies as the run count says of
  \<^verbatim>\<open> && <interpreter> -interaction=batchmode <options> <file>\<close>, where interpreter,
  options and run count come from the settings with the defaults \<^verbatim>\<open>lualatex\<close>, empty
  and 1. The file is the base name of the path written, which is
  \<^verbatim>\<open><base_filename>.tex\<close> for a base file name without a separator.
\<close>

theorem latex_command_executed:
  assumes "compile_attempt e cfg self fs tempdir process fs3"
  shows "take 1 (snd (snd (process_tex e cfg self (Callable cb) fs))) =
           [Exec (''cd '' @ [dquote] @ tempdir @ [dquote] @ '' ''
                  @ concat (replicate (nat (getattr (LATEX_RUN_COUNT cfg) 1))
                      ('' && '' @ getattr (LATEX_INTERPRETER cfg) ''lualatex''
                       @ '' -interaction=batchmode ''
                       @ getattr (LATEX_INTERPRETER_OPTIONS cfg) []
                       @ '' ''
                       @ os_path_basename
                           (os_path_join tempdir (base_filename self @ ''.tex'')))))]
       \<and> (sep \<notin> set (base_filename self) \<longrightarrow>
            os_path_basename (os_path_join tempdir (base_filename self @ ''.tex''))
              = base_filename self @ ''.tex'')"
proof -
  have "sep \<notin> set (base_filename self) \<Longrightarrow> sep \<notin> set (base_filename self @ ''.tex'')"
    by simp
  then show ?thesis
    by (simp add: process_tex_attempt [OF assms] latex_command_def latex_call_def
          DEFAULT_INTERPRETER_def DEFAULT_RUN_COUNT_def basename_join
          split: prod.splits)
qed

text \<open>C4 at work: with nothing set, and with \<^verbatim>\<open>pdflatex\<close>, an option and two runs.\<close>

theorem latex_command_executed_witness:
  "take 1 (snd (snd (process_tex (demo_env (exited 0 []) [] (exited 0 [])) unset
                       (init ''x'' ''texput'') (Callable returning_callback) demo_fs)))
     = [Exec (''cd '' @ [dquote] @ ''/tmp/tmpk3x9'' @ [dquote]
              @ ''  && lualatex -interaction=batchmode  texput.tex'')]
   \<and> take 1 (snd (snd (process_tex (demo_env (exited 0 []) [] (exited 0 []))
                       (unset\<lparr>LATEX_INTERPRETER := Some ''pdflatex'', LATEX_RUN_COUNT := Some 2,
                               LATEX_INTERPRETER_OPTIONS := Some ''-shell-escape''\<rparr>)
                       (init ''x'' ''texput'') (Callable returning_callback) demo_fs)))
     = [Exec (''cd '' @ [dquote] @ ''/tmp/tmpk3x9'' @ [dquote]
              @ ''  && pdflatex -interaction=batchmode -shell-escape texput.tex''
              @ '' && pdflatex -interaction=batchmode -shell-escape texput.tex'')]"
proof -
  let ?fs3 = "demo_after ''/tmp/tmpk3x9/texput.tex'' ''x'' []"
  let ?cfg = "unset\<lparr>LATEX_INTERPRETER := Some ''pdflatex'', LATEX_RUN_COUNT := Some 2,
                     LATEX_INTERPRETER_OPTIONS := Some ''-shell-escape''\<rparr>"
  have a1: "compile_attempt (demo_env (exited 0 []) [] (exited 0 [])) unset
              (init ''x'' ''texput'') demo_fs ''/tmp/tmpk3x9'' (exited 0 []) ?fs3"
    by (rule demo_attempt)
  have a2: "compile_attempt (demo_env (exited 0 []) [] (exited 0 [])) ?cfg
              (init ''x'' ''texput'') demo_fs ''/tmp/tmpk3x9'' (exited 0 []) ?fs3"
    by (rule demo_attempt)
  have s: "sep \<notin> set (base_filename (init ''x'' ''texput''))"
    by (simp add: init_def)
  show ?thesis
    using latex_command_executed [where cb = returning_callback, OF a1]
      latex_command_executed [where cb = returning_callback, OF a2] s
    by (simp add: unset_def getattr_def init_def numeral_2_eq_2)
qed

subsection \<open>The life of the workspace\<close>

text \<open>
  C5: once the temporary directory has been created, it is gone from the file system
  that \<open>process_tex\<close> leaves, with everything below it, whatever happens in between:
  success, an error of the interpreter, a missing artifact or an exception of the
  callback (the callback is arbitrary here). And the callback runs before the removal:
  it is called on the file system the interpreter left, in which the directory is still
  there as long as the interpreter did not remove it itself, and the removal is applied
  to the file system the callback leaves.
\<close>

theorem workspace_removed:
  assumes "mkdtemp e fs = Inr (tempdir, fs1)"
  shows "fst (snd (process_tex e cfg self (Callable cb) fs)) tempdir = None
       \<and> (\<forall>p. inside tempdir p \<longrightarrow>
              fst (snd (process_tex e cfg self (Callable cb) fs)) p = None)
       \<and> (compile_attempt e cfg self fs tempdir process fs3
            \<and> leaves_in_place e
                (latex_command cfg tempdir
                   (os_path_join tempdir (base_filename self @ ''.tex''))) tempdir
            \<and> returncode process \<noteq> 1
            \<and> os_path_isfile fs3 (os_path_join tempdir (base_filename self @ ''.pdf''))
          \<longrightarrow> fs3 tempdir = Some Dir
              \<and> snd (process_tex e cfg self (Callable cb) fs) =
                  (case cb tempdir (base_filename self @ ''.pdf'') fs3 of
                     (r, fs4, evs) \<Rightarrow>
                       (rmtree tempdir fs4,
                        Exec (latex_command cfg tempdir
                                (os_path_join tempdir (base_filename self @ ''.tex''))) # evs)))"
proof -
  let ?cmd = "latex_command cfg tempdir (os_path_join tempdir (base_filename self @ ''.tex''))"
  let ?pdf = "base_filename self @ ''.pdf''"
  note process_tex_removes [OF assms, of cfg self cb]
  then have gone: "fst (snd (process_tex e cfg self (Callable cb) fs)) tempdir = None"
    and below: "\<forall>p. inside tempdir p \<longrightarrow>
                  fst (snd (process_tex e cfg self (Callable cb) fs)) p = None"
    by simp_all
  have live: "fs3 tempdir = Some Dir
       \<and> snd (process_tex e cfg self (Callable cb) fs) =
           (case cb tempdir ?pdf fs3 of (r, fs4, evs) \<Rightarrow> (rmtree tempdir fs4, Exec ?cmd # evs))"
    if h: "compile_attempt e cfg self fs tempdir process fs3
            \<and> leaves_in_place e ?cmd tempdir
            \<and> returncode process \<noteq> 1
            \<and> os_path_isfile fs3 (os_path_join tempdir ?pdf)"
  proof -
    from h have a: "compile_attempt e cfg self fs tempdir process fs3"
      and k: "leaves_in_place e ?cmd tempdir"
      and rc: "returncode process \<noteq> 1"
      and pdf: "os_path_isfile fs3 (os_path_join tempdir ?pdf)"
      by simp_all
    have t: "try_body self cb tempdir process fs3 = cb tempdir ?pdf fs3"
      using rc pdf by (simp add: try_body_def)
    obtain r fs4 evs where c: "cb tempdir ?pdf fs3 = (r, fs4, evs)"
      by (cases "cb tempdir ?pdf fs3") auto
    have "snd (except_FileNotFoundError process (r, fs4, evs)) = (fs4, evs)"
      by simp
    then obtain r' where "except_FileNotFoundError process (r, fs4, evs) = (r', fs4, evs)"
      by (cases "except_FileNotFoundError process (r, fs4, evs)") auto
    then show ?thesis
      using attempt_keeps_directory [OF a k]
      by (simp add: process_tex_attempt [OF a] t c)
  qed
  from gone below live show ?thesis
    by simp
qed

text \<open>C5 at work, with a callback that raises.\<close>

theorem workspace_removed_witness:
  "fst (snd (process_tex
               (demo_env (exited 0 []) [(''/tmp/tmpk3x9/texput.pdf'', File ''%PDF'')] (exited 0 []))
               unset (init ''x'' ''texput'') (Callable raising_callback) demo_fs))
     ''/tmp/tmpk3x9'' = None
   \<and> fst (snd (process_tex
               (demo_env (exited 0 []) [(''/tmp/tmpk3x9/texput.pdf'', File ''%PDF'')] (exited 0 []))
               unset (init ''x'' ''texput'') (Callable raising_callback) demo_fs))
     ''/tmp/tmpk3x9/texput.pdf'' = None
   \<and> demo_after ''/tmp/tmpk3x9/texput.tex'' ''x'' [(''/tmp/tmpk3x9/texput.pdf'', File ''%PDF'')]
       ''/tmp/tmpk3x9'' = Some Dir
   \<and> snd (process_tex
               (demo_env (exited 0 []) [(''/tmp/tmpk3x9/texput.pdf'', File ''%PDF'')] (exited 0 []))
               unset (init ''x'' ''texput'') (Callable raising_callback) demo_fs)
       = (rmtree ''/tmp/tmpk3x9''
            (demo_after ''/tmp/tmpk3x9/texput.tex'' ''x''
               [(''/tmp/tmpk3x9/texput.pdf'', File ''%PDF'')]),
          [Exec (latex_command unset ''/tmp/tmpk3x9'' ''/tmp/tmpk3x9/texput.tex'')])"
proof -
  let ?out = "[(''/tmp/tmpk3x9/texput.pdf'', File ''%PDF'')]"
  let ?E = "demo_env (exited 0 []) ?out (exited 0 [])"
  let ?S = "init ''x'' ''texput''"
  let ?fs3 = "demo_after ''/tmp/tmpk3x9/texput.tex'' ''x'' ?out"
  let ?cmd = "latex_command unset ''/tmp/tmpk3x9''
                (os_path_join ''/tmp/tmpk3x9'' (base_filename ?S @ ''.tex''))"
  have mk: "mkdtemp ?E demo_fs = Inr (''/tmp/tmpk3x9'', demo_fs(''/tmp/tmpk3x9'' \<mapsto> Dir))"
    by (simp add: mkdtemp_def demo_defs Let_def)
  have ins: "inside ''/tmp/tmpk3x9'' ''/tmp/tmpk3x9/texput.pdf''"
    by (simp add: inside_def)
  have a: "compile_attempt ?E unset ?S demo_fs ''/tmp/tmpk3x9'' (exited 0 []) ?fs3"
    by (rule demo_attempt)
  have k: "leaves_in_place ?E ?cmd ''/tmp/tmpk3x9''"
    by (simp add: leaves_in_place_def demo_env_def demo_shell_def map_add_def)
  have rc: "returncode (exited 0 []) \<noteq> 1"
    by (simp add: exited_def)
  have pdf: "os_path_isfile ?fs3 (os_path_join ''/tmp/tmpk3x9'' (base_filename ?S @ ''.pdf''))"
    by (simp add: demo_defs fs_defs)
  show ?thesis
    using workspace_removed [where cb = raising_callback and cfg = unset and self = ?S
        and process = "exited 0 []" and ?fs3.0 = ?fs3, OF mk] ins a k rc pdf
    by (simp add: init_def raising_callback_def os_path_join_def)
qed

subsection \<open>Printing\<close>

text \<open>
  C6: the print worker runs one command,
  \<^verbatim>\<open><command> <options> <extra option> <quoted path>\<close>. With a printer configured,
  the command \<^verbatim>\<open>lp\<close> becomes \<^verbatim>\<open>lp -d <quoted device>\<close> and \<^verbatim>\<open>lpr\<close> becomes
  \<^verbatim>\<open>lpr -P <quoted device>\<close>; any other command stays as it is, a warning is logged
  before the command runs, and the outcome is what it would be with no printer
  configured. Without a printer the command gets no device option.
\<close>

theorem print_command_built:
  "filter is_Exec (snd (snd (print_pdf_worker_unix e cfg self tempdir pdf fs))) =
     [Exec (fst (print_command cfg) @ '' '' @ getattr (LATEX_UNIX_PRINT_OPTIONS cfg) []
            @ '' '' @ extra_printing_option self @ '' ''
            @ quote (os_path_join tempdir pdf))]
   \<and> takeWhile (\<lambda>ev. \<not> is_Exec ev)
        (snd (snd (print_pdf_worker_unix e cfg self tempdir pdf fs))) = snd (print_command cfg)
   \<and> (LATEX_PRINTER cfg = Some device
        \<and> getattr (LATEX_UNIX_PRINT_COMMAND cfg) ''lpr'' = ''lp''
      \<longrightarrow> print_command cfg = (''lp -d '' @ quote device, []))
   \<and> (LATEX_PRINTER cfg = Some device
        \<and> getattr (LATEX_UNIX_PRINT_COMMAND cfg) ''lpr'' = ''lpr''
      \<longrightarrow> print_command cfg = (''lpr -P '' @ quote device, []))
   \<and> (LATEX_PRINTER cfg = Some device
        \<and> getattr (LATEX_UNIX_PRINT_COMMAND cfg) ''lpr'' \<noteq> ''lp''
        \<and> getattr (LATEX_UNIX_PRINT_COMMAND cfg) ''lpr'' \<noteq> ''lpr''
      \<longrightarrow> print_command cfg =
            (getattr (LATEX_UNIX_PRINT_COMMAND cfg) ''lpr'',
             [Log WARNING
                (''The unknown custom printing command '' @ [squote]
                 @ getattr (LATEX_UNIX_PRINT_COMMAND cfg) ''lpr'' @ [squote]
                 @ '' was defined and as well as a non default printer. ''
                 @ ''Please edit '' @ [squote] @ ''PRINTING_DEVICE_OPTIONS'' @ [squote]
                 @ '' in the module according to your needs.'')])
          \<and> fst (print_pdf_worker_unix e cfg self tempdir pdf fs) =
              fst (print_pdf_worker_unix e (cfg\<lparr>LATEX_PRINTER := None\<rparr>) self tempdir pdf fs))
   \<and> (LATEX_PRINTER cfg = None
      \<longrightarrow> fst (print_command cfg) = getattr (LATEX_UNIX_PRINT_COMMAND cfg) ''lpr'')"
proof -
  have unknown: "PRINTING_DEVICE_OPTIONS c = None" if "c \<noteq> ''lp''" "c \<noteq> ''lpr''" for c
    using that by (simp add: PRINTING_DEVICE_OPTIONS_def)
  have 1: "filter is_Exec (snd (snd (print_pdf_worker_unix e cfg self tempdir pdf fs))) =
     [Exec (fst (print_command cfg) @ '' '' @ getattr (LATEX_UNIX_PRINT_OPTIONS cfg) []
            @ '' '' @ extra_printing_option self @ '' ''
            @ quote (os_path_join tempdir pdf))]"
    by (simp add: worker_one_command full_command_def)
  have 3: "print_command cfg = (''lp -d '' @ quote device, [])"
    if "LATEX_PRINTER cfg = Some device" "getattr (LATEX_UNIX_PRINT_COMMAND cfg) ''lpr'' = ''lp''"
    using that by (simp add: print_command_def PRINTING_DEVICE_OPTIONS_def)
  have 4: "print_command cfg = (''lpr -P '' @ quote device, [])"
    if "LATEX_PRINTER cfg = Some device" "getattr (LATEX_UNIX_PRINT_COMMAND cfg) ''lpr'' = ''lpr''"
    using that by (simp add: print_command_def PRINTING_DEVICE_OPTIONS_def)
  have 5: "print_command cfg =
            (getattr (LATEX_UNIX_PRINT_COMMAND cfg) ''lpr'',
             [Log WARNING
                (''The unknown custom printing command '' @ [squote]
                 @ getattr (LATEX_UNIX_PRINT_COMMAND cfg) ''lpr'' @ [squote]
                 @ '' was defined and as well as a non default printer. ''
                 @ ''Please edit '' @ [squote] @ ''PRINTING_DEVICE_OPTIONS'' @ [squote]
                 @ '' in the module according to your needs.'')])
          \<and> fst (print_pdf_worker_unix e cfg self tempdir pdf fs) =
              fst (print_pdf_worker_unix e (cfg\<lparr>LATEX_PRINTER := None\<rparr>) self tempdir pdf fs)"
    if "LATEX_PRINTER cfg = Some device"
      "getattr (LATEX_UNIX_PRINT_COMMAND cfg) ''lpr'' \<noteq> ''lp''"
      "getattr (LATEX_UNIX_PRINT_COMMAND cfg) ''lpr'' \<noteq> ''lpr''"
  proof
    show "print_command cfg =
            (getattr (LATEX_UNIX_PRINT_COMMAND cfg) ''lpr'',
             [Log WARNING
                (''The unknown custom printing command '' @ [squote]
                 @ getattr (LATEX_UNIX_PRINT_COMMAND cfg) ''lpr'' @ [squote]
                 @ '' was defined and as well as a non default printer. ''
                 @ ''Please edit '' @ [squote] @ ''PRINTING_DEVICE_OPTIONS'' @ [squote]
                 @ '' in the module according to your needs.'')])"
      using that unknown [OF that(2,3)] by (simp add: print_command_def Let_def)
    have "full_command (cfg\<lparr>LATEX_PRINTER := None\<rparr>) self (os_path_join tempdir pdf)
            = full_command cfg self (os_path_join tempdir pdf)"
      by (rule full_command_unknown [OF unknown [OF that(2,3)]])
    then show "fst (print_pdf_worker_unix e cfg self tempdir pdf fs) =
              fst (print_pdf_worker_unix e (cfg\<lparr>LATEX_PRINTER := None\<rparr>) self tempdir pdf fs)"
      by (simp only: worker_fst)
  qed
  have 6: "fst (print_command cfg) = getattr (LATEX_UNIX_PRINT_COMMAND cfg) ''lpr''"
    if "LATEX_PRINTER cfg = None"
    using that by (simp add: print_command_def)
  from 1 worker_log_first 3 4 5 6 show ?thesis
    by simp
qed

text \<open>C6 at work: \<^verbatim>\<open>lp\<close> with printer \<^verbatim>\<open>hp1\<close>, \<^verbatim>\<open>lpr\<close> with a printer name that
  needs quoting, an unknown command, and no printer.\<close>

theorem print_command_built_witness:
  "filter is_Exec
     (snd (snd (print_pdf_worker_unix (demo_env (exited 0 []) [] (exited 0 []))
                  (unset\<lparr>LATEX_PRINTER := Some ''hp1'', LATEX_UNIX_PRINT_COMMAND := Some ''lp''\<rparr>)
                  (init ''x'' ''texput'') ''/tmp/tmpk3x9'' ''texput.pdf'' demo_fs)))
     = [Exec ''lp -d hp1   /tmp/tmpk3x9/texput.pdf'']
   \<and> print_command (unset\<lparr>LATEX_PRINTER := Some ''hp 1''\<rparr>)
       = (''lpr -P '' @ [squote] @ ''hp 1'' @ [squote], [])
   \<and> fst (print_command
            (unset\<lparr>LATEX_PRINTER := Some ''hp1'', LATEX_UNIX_PRINT_COMMAND := Some ''mylp''\<rparr>))
       = ''mylp''
   \<and> fst (print_pdf_worker_unix (demo_env (exited 0 []) [] (exited 0 []))
            (unset\<lparr>LATEX_PRINTER := Some ''hp1'', LATEX_UNIX_PRINT_COMMAND := Some ''mylp''\<rparr>)
            (init ''x'' ''texput'') ''/tmp/tmpk3x9'' ''texput.pdf'' demo_fs) = Inr ()
   \<and> fst (print_command unset) = ''lpr''"
proof -
  let ?E = "demo_env (exited 0 []) [] (exited 0 [])"
  let ?S = "init ''x'' ''texput''"
  let ?lp = "unset\<lparr>LATEX_PRINTER := Some ''hp1'', LATEX_UNIX_PRINT_COMMAND := Some ''lp''\<rparr>"
  let ?lpr = "unset\<lparr>LATEX_PRINTER := Some ''hp 1''\<rparr>"
  let ?my = "unset\<lparr>LATEX_PRINTER := Some ''hp1'', LATEX_UNIX_PRINT_COMMAND := Some ''mylp''\<rparr>"
  have lp: "LATEX_PRINTER ?lp = Some ''hp1''
            \<and> getattr (LATEX_UNIX_PRINT_COMMAND ?lp) ''lpr'' = ''lp''"
    by (simp add: unset_def getattr_def)
  have lpr: "LATEX_PRINTER ?lpr = Some ''hp 1''
             \<and> getattr (LATEX_UNIX_PRINT_COMMAND ?lpr) ''lpr'' = ''lpr''"
    by (simp add: unset_def getattr_def)
  have my: "LATEX_PRINTER ?my = Some ''hp1''
            \<and> getattr (LATEX_UNIX_PRINT_COMMAND ?my) ''lpr'' \<noteq> ''lp''
            \<and> getattr (LATEX_UNIX_PRINT_COMMAND ?my) ''lpr'' \<noteq> ''lpr''"
    by (simp add: unset_def getattr_def)
  have none: "LATEX_PRINTER unset = None"
    by (simp add: unset_def)
  have plain: "fst (print_pdf_worker_unix ?E (?my\<lparr>LATEX_PRINTER := None\<rparr>) ?S
                      ''/tmp/tmpk3x9'' ''texput.pdf'' demo_fs) = Inr ()"
    by (simp add: print_pdf_worker_unix_def full_command_def print_command_def run_def
          demo_defs getattr_def Let_def)
  have q1: "quote ''hp1'' = ''hp1''"
    by (simp add: quote_def safe_char_def)
  have q2: "quote ''hp 1'' = [squote] @ ''hp 1'' @ [squote]"
    by (simp add: quote_def safe_char_def)
  have q3: "quote (os_path_join ''/tmp/tmpk3x9'' ''texput.pdf'') = ''/tmp/tmpk3x9/texput.pdf''"
    by (simp add: quote_def safe_char_def os_path_join_def)
  show ?thesis
    using print_command_built [where e = ?E and cfg = ?lp and self = ?S
          and tempdir = "''/tmp/tmpk3x9''" and pdf = "''texput.pdf''" and fs = demo_fs
          and device = "''hp1''"]
      print_command_built [where e = ?E and cfg = ?lpr and self = ?S
          and tempdir = "''/tmp/tmpk3x9''" and pdf = "''texput.pdf''" and fs = demo_fs
          and device = "''hp 1''"]
      print_command_built [where e = ?E and cfg = ?my and self = ?S
          and tempdir = "''/tmp/tmpk3x9''" and pdf = "''texput.pdf''" and fs = demo_fs
          and device = "''hp1''"]
      print_command_built [where e = ?E and cfg = unset and self = ?S
          and tempdir = "''/tmp/tmpk3x9''" and pdf = "''texput.pdf''" and fs = demo_fs
          and device = "''hp1''"]
      lp lpr my none plain
    by (simp add: q1 q2 q3 unset_def getattr_def init_def)
qed




subsection \<open>The callback\<close>

text \<open>
  C8, as stated: any exception raised inside the callback reaches the caller. This
  fails for a \<^verbatim>\<open>FileNotFoundError\<close> when the interpreter wrote to stderr: the callback
  runs inside the \<^verbatim>\<open>try\<close>, and the handler replaces the exception by an
  \<^verbatim>\<open>Exception\<close> that holds stderr.
\<close>

theorem callback_FileNotFoundError_replaced:
  "raising_callback ''/tmp/tmpk3x9'' ''texput.pdf''
      (demo_after ''/tmp/tmpk3x9/texput.tex'' ''x'' [(''/tmp/tmpk3x9/texput.pdf'', File ''%PDF'')])
     = (Inl (FileNotFoundError ''gone''),
        demo_after ''/tmp/tmpk3x9/texput.tex'' ''x'' [(''/tmp/tmpk3x9/texput.pdf'', File ''%PDF'')],
        [])
   \<and> fst (process_tex
            (demo_env (exited 0 ''warn'') [(''/tmp/tmpk3x9/texput.pdf'', File ''%PDF'')]
               (exited 0 []))
            unset (init ''x'' ''texput'') (Callable raising_callback) demo_fs)
     = Inl (PyException ''warn'')"
proof -
  let ?out = "[(''/tmp/tmpk3x9/texput.pdf'', File ''%PDF'')]"
  let ?fs3 = "demo_after ''/tmp/tmpk3x9/texput.tex'' ''x'' ?out"
  have a: "compile_attempt (demo_env (exited 0 ''warn'') ?out (exited 0 [])) unset
             (init ''x'' ''texput'') demo_fs ''/tmp/tmpk3x9'' (exited 0 ''warn'') ?fs3"
    by (rule demo_attempt)
  have pdf: "os_path_isfile ?fs3 ''/tmp/tmpk3x9/texput.pdf''"
    by (simp add: demo_defs os_path_isfile_def)
  have d: "decode_utf8 ''warn'' = Inr ''warn''"
    by (simp add: decode_utf8_def)
  have "fst (process_tex (demo_env (exited 0 ''warn'') ?out (exited 0 [])) unset
               (init ''x'' ''texput'') (Callable raising_callback) demo_fs)
          = Inl (PyException ''warn'')"
    unfolding process_tex_attempt [OF a]
    by (simp add: try_body_def pdf os_path_join_def init_def raising_callback_def exited_def
          except_FileNotFoundError_def d)
  then show ?thesis
    by (simp add: raising_callback_def)
qed

text \<open>
  C8, amended: after a successful compile the callback is called with the directory and
  \<^verbatim>\<open><base_filename>.pdf\<close>. What it returns is returned unchanged, and an exception it
  raises reaches the caller unchanged unless it is a \<^verbatim>\<open>FileNotFoundError\<close> while
  stderr of the interpreter is not empty. The directory is removed in each case.
\<close>

theorem callback_outcome_returned:
  assumes "compile_attempt e cfg self fs tempdir process fs3"
    and "returncode process \<noteq> 1"
    and "os_path_isfile fs3 (os_path_join tempdir (base_filename self @ ''.pdf''))"
    and "cb tempdir (base_filename self @ ''.pdf'') fs3 = (r, fs4, evs)"
    and "case r of Inr v \<Rightarrow> True
         | Inl ex \<Rightarrow> \<not> is_FileNotFoundError ex \<or> stderr process = []"
  shows "process_tex e cfg self (Callable cb) fs =
           (r, rmtree tempdir fs4,
            Exec (latex_command cfg tempdir
                    (os_path_join tempdir (base_filename self @ ''.tex''))) # evs)"
proof -
  have "except_FileNotFoundError process (r, fs4, evs) = (r, fs4, evs)"
    using assms(5) by (cases r) auto
  with assms(2-4) show ?thesis
    by (simp add: process_tex_attempt [OF assms(1)] try_body_def)
qed

text \<open>The amended C8 at work: another exception with noise on stderr, and a
  \<^verbatim>\<open>FileNotFoundError\<close> with a silent interpreter.\<close>

theorem callback_outcome_returned_witness:
  "process_tex
     (demo_env (exited 0 ''warn'') [(''/tmp/tmpk3x9/texput.pdf'', File ''%PDF'')] (exited 0 []))
     unset (init ''x'' ''texput'') (Callable failing_callback) demo_fs
     = (Inl (OtherError ''disk full''),
        rmtree ''/tmp/tmpk3x9''
          (demo_after ''/tmp/tmpk3x9/texput.tex'' ''x''
             [(''/tmp/tmpk3x9/texput.pdf'', File ''%PDF'')]),
        [Exec (latex_command unset ''/tmp/tmpk3x9'' ''/tmp/tmpk3x9/texput.tex'')])
   \<and> fst (process_tex
            (demo_env (exited 0 []) [(''/tmp/tmpk3x9/texput.pdf'', File ''%PDF'')] (exited 0 []))
            unset (init ''x'' ''texput'') (Callable raising_callback) demo_fs)
     = Inl (FileNotFoundError ''gone'')"
proof -
  let ?out = "[(''/tmp/tmpk3x9/texput.pdf'', File ''%PDF'')]"
  let ?S = "init ''x'' ''texput''"
  let ?fs3 = "demo_after ''/tmp/tmpk3x9/texput.tex'' ''x'' ?out"
  have a1: "compile_attempt (demo_env (exited 0 ''warn'') ?out (exited 0 [])) unset ?S demo_fs
              ''/tmp/tmpk3x9'' (exited 0 ''warn'') ?fs3"
    by (rule demo_attempt)
  have a2: "compile_attempt (demo_env (exited 0 []) ?out (exited 0 [])) unset ?S demo_fs
              ''/tmp/tmpk3x9'' (exited 0 []) ?fs3"
    by (rule demo_attempt)
  have rc1: "returncode (exited 0 ''warn'') \<noteq> 1" and rc2: "returncode (exited 0 []) \<noteq> 1"
    by (simp_all add: exited_def)
  have pdf: "os_path_isfile ?fs3 (os_path_join ''/tmp/tmpk3x9'' (base_filename ?S @ ''.pdf''))"
    by (simp add: demo_defs fs_defs)
  have c1: "failing_callback ''/tmp/tmpk3x9'' (base_filename ?S @ ''.pdf'') ?fs3
              = (Inl (OtherError ''disk full''), ?fs3, [])"
    by (simp add: failing_callback_def)
  have c2: "raising_callback ''/tmp/tmpk3x9'' (base_filename ?S @ ''.pdf'') ?fs3
              = (Inl (FileNotFoundError ''gone''), ?fs3, [])"
    by (simp add: raising_callback_def)
  have g1: "case Inl (OtherError ''disk full'') :: exn + nat of Inr v \<Rightarrow> True
            | Inl ex \<Rightarrow> \<not> is_FileNotFoundError ex \<or> stderr (exited 0 ''warn'') = []"
    by simp
  have g2: "case Inl (FileNotFoundError ''gone'') :: exn + nat of Inr v \<Rightarrow> True
            | Inl ex \<Rightarrow> \<not> is_FileNotFoundError ex \<or> stderr (exited 0 []) = []"
    by (simp add: exited_def)
  show ?thesis
    using callback_outcome_returned [where cb = failing_callback, OF a1 rc1 pdf c1 g1]
      callback_outcome_returned [where cb = raising_callback, OF a2 rc2 pdf c2 g2]
    by (simp add: init_def os_path_join_def)
qed

subsection \<open>Writing the source\<close>

text \<open>
  C9: something that is not callable is rejected with a \<^verbatim>\<open>ValueError\<close> before
  anything is touched or run. The source goes to \<^verbatim>\<open><workspace>/<base_filename>.tex\<close>
  by exclusive creation: if the path is taken the attempt ends with
  \<^verbatim>\<open>FileExistsError\<close> and no command is run; otherwise the interpreter starts on a
  file system that differs from the one before only in that path, which holds the source
  as it is. The text a template renders to is the source of the attempt.
\<close>

theorem source_written_verbatim:
  "process_tex e cfg self (NotCallable :: 'r pyobj) fs =
     (Inl (ValueError ''parameter call_back needs to be callable!''), fs, [])
   \<and> (mkdtemp e fs = Inr (tempdir, fs1)
        \<and> fs1 (os_path_join tempdir (base_filename self @ ''.tex'')) \<noteq> None
      \<longrightarrow> process_tex e cfg self (Callable cb :: 'r pyobj) fs =
            (Inl (FileExistsError (os_path_join tempdir (base_filename self @ ''.tex''))),
             rmtree tempdir fs1, []))
   \<and> (mkdtemp e fs = Inr (tempdir, fs1)
        \<and> fs1 (os_path_join tempdir (base_filename self @ ''.tex'')) = None
        \<and> fs1 (os_path_dirname (os_path_join tempdir (base_filename self @ ''.tex'')))
            = Some Dir
      \<longrightarrow> process_tex e cfg self (Callable cb) fs =
            (case shell e (latex_command cfg tempdir
                             (os_path_join tempdir (base_filename self @ ''.tex'')))
                    (fs1(os_path_join tempdir (base_filename self @ ''.tex'')
                           \<mapsto> File (source self))) of
               (Inl ex, fs3) \<Rightarrow>
                 (Inl ex, rmtree tempdir fs3,
                  [Exec (latex_command cfg tempdir
                           (os_path_join tempdir (base_filename self @ ''.tex'')))])
             | (Inr process, fs3) \<Rightarrow>
                 (case except_FileNotFoundError process
                         (try_body self cb tempdir process fs3) of
                    (r, fs4, evs) \<Rightarrow>
                      (r, rmtree tempdir fs4,
                       Exec (latex_command cfg tempdir
                               (os_path_join tempdir (base_filename self @ ''.tex''))) # evs))))
   \<and> (render template_name ctx = Inr src
      \<longrightarrow> compile_template_to_pdf e cfg render template_name ctx fs =
            process_tex e cfg
              \<lparr>source = src, base_filename = ''texput'', extra_printing_option = []\<rparr>
              (Callable get_pdf_worker) fs)"
  by (auto simp: process_tex_def with_body_def open_x_write_def run_def Let_def
        compile_template_to_pdf_def run_tex_def get_pdf_def init_def
      split: prod.splits sum.splits)

text \<open>C9 at work: something not callable, a path that is taken, an interpreter that
  prints the file it finds, and a rendered template.\<close>

theorem source_written_verbatim_witness:
  "process_tex cat_env unset (init ''Hello, TeX'' ''texput'')
       (NotCallable :: nat pyobj) demo_fs
     = (Inl (ValueError ''parameter call_back needs to be callable!''), demo_fs, [])
   \<and> fst (process_tex cat_env unset (init ''x'' ''/srv/report'') (Callable returning_callback)
            demo_fs)
     = Inl (FileExistsError ''/srv/report.tex'')
   \<and> fst (process_tex cat_env unset (init ''Hello, TeX'' ''texput'')
            (Callable returning_callback) demo_fs)
     = Inl (PyException ''Hello, TeX'')
   \<and> compile_template_to_pdf cat_env unset (\<lambda>t c. Inr ''Hello, TeX'')
       ''letter.tex'' () demo_fs
     = process_tex cat_env unset (init ''Hello, TeX'' ''texput'')
         (Callable get_pdf_worker) demo_fs"
proof -
  let ?src = "''Hello, TeX''"
  let ?S = "init ?src ''texput''"
  let ?R = "init ''x'' ''/srv/report''"
  let ?fs1 = "demo_fs(''/tmp/tmpk3x9'' \<mapsto> Dir)"
  have mk: "mkdtemp cat_env demo_fs = Inr (''/tmp/tmpk3x9'', ?fs1)"
    by (simp add: mkdtemp_def cat_env_def demo_fs_def Let_def)
  have taken: "?fs1 (os_path_join ''/tmp/tmpk3x9'' (base_filename ?R @ ''.tex'')) \<noteq> None"
    by (simp add: init_def os_path_join_def demo_fs_def)
  have free: "?fs1 (os_path_join ''/tmp/tmpk3x9'' (base_filename ?S @ ''.tex'')) = None"
    by (simp add: init_def os_path_join_def demo_fs_def)
  have dir: "?fs1 (os_path_dirname (os_path_join ''/tmp/tmpk3x9'' (base_filename ?S @ ''.tex'')))
               = Some Dir"
    by (simp add: init_def os_path_join_def os_path_dirname_def demo_fs_def)
  have rnd: "(\<lambda>t c. Inr ?src :: exn + string) ''letter.tex'' () = Inr ?src"
    by simp
  note w1 = source_written_verbatim [where e = cat_env and cfg = unset and self = ?R
      and cb = returning_callback and fs = demo_fs and tempdir = "''/tmp/tmpk3x9''"
      and ?fs1.0 = ?fs1 and render = "\<lambda>t c. Inr ?src :: exn + string"
      and template_name = "''letter.tex''" and ctx = "()" and src = ?src]
  note w2 = source_written_verbatim [where e = cat_env and cfg = unset and self = ?S
      and cb = returning_callback and fs = demo_fs and tempdir = "''/tmp/tmpk3x9''"
      and ?fs1.0 = ?fs1 and render = "\<lambda>t c. Inr ?src :: exn + string"
      and template_name = "''letter.tex''" and ctx = "()" and src = ?src]
  have 1: "process_tex cat_env unset ?S (NotCallable :: nat pyobj) demo_fs
             = (Inl (ValueError ''parameter call_back needs to be callable!''), demo_fs, [])"
    by (simp add: process_tex_def)
  have 2: "fst (process_tex cat_env unset ?R (Callable returning_callback) demo_fs)
             = Inl (FileExistsError ''/srv/report.tex'')"
    using w1 mk taken by (simp add: init_def os_path_join_def)
  have 3: "fst (process_tex cat_env unset ?S (Callable returning_callback) demo_fs)
             = Inl (PyException ?src)"
    using w2 mk free dir
    by (simp add: init_def os_path_join_def cat_env_def try_body_def os_path_isfile_def
          demo_fs_def except_FileNotFoundError_def decode_utf8_def)
  have 4: "compile_template_to_pdf cat_env unset (\<lambda>t c. Inr ?src) ''letter.tex'' () demo_fs
             = process_tex cat_env unset ?S (Callable get_pdf_worker) demo_fs"
    using w2 rnd by (simp add: init_def)
  from 1 2 3 4 show ?thesis
    by simp
qed

subsection \<open>The handler of the try statement\<close>

text \<open>
  C10, as stated: whenever stderr of the interpreter is not empty, a
  \<^verbatim>\<open>FileNotFoundError\<close> of the \<^verbatim>\<open>try\<close> block is replaced by an \<^verbatim>\<open>Exception\<close> that
  holds stderr, decoded. This fails when stderr is not valid UTF-8: with exit code 1, no
  \<^verbatim>\<open>texput.log\<close> and the single byte \<^verbatim>\<open>0xFF\<close> on stderr the decoding inside the
  handler raises, and the caller gets the \<^verbatim>\<open>UnicodeDecodeError\<close>.
\<close>

theorem missing_log_undecodable_stderr:
  "compile_attempt (demo_env (exited 1 [CHR 0xFF]) [] (exited 0 [])) unset
     (init ''x'' ''texput'') demo_fs ''/tmp/tmpk3x9'' (exited 1 [CHR 0xFF])
     (demo_after ''/tmp/tmpk3x9/texput.tex'' ''x'' [])
   \<and> returncode (exited 1 [CHR 0xFF]) = 1
   \<and> demo_after ''/tmp/tmpk3x9/texput.tex'' ''x'' [] ''/tmp/tmpk3x9/texput.log'' = None
   \<and> stderr (exited 1 [CHR 0xFF]) \<noteq> []
   \<and> fst (process_tex (demo_env (exited 1 [CHR 0xFF]) [] (exited 0 [])) unset
            (init ''x'' ''texput'') (Callable returning_callback) demo_fs)
       = Inl UnicodeDecodeError"
proof -
  let ?fs3 = "demo_after ''/tmp/tmpk3x9/texput.tex'' ''x'' []"
  have a: "compile_attempt (demo_env (exited 1 [CHR 0xFF]) [] (exited 0 [])) unset
             (init ''x'' ''texput'') demo_fs ''/tmp/tmpk3x9'' (exited 1 [CHR 0xFF]) ?fs3"
    by (rule demo_attempt)
  have b: "returncode (exited 1 [CHR 0xFF]) = 1" and c: "stderr (exited 1 [CHR 0xFF]) \<noteq> []"
    by (simp_all add: exited_def)
  have log: "?fs3 ''/tmp/tmpk3x9/texput.log'' = None"
    by (simp add: demo_defs)
  have d: "decode_utf8 [CHR 0xFF] = Inl UnicodeDecodeError"
    by (simp add: decode_utf8_def)
  have "fst (process_tex (demo_env (exited 1 [CHR 0xFF]) [] (exited 0 [])) unset
               (init ''x'' ''texput'') (Callable returning_callback) demo_fs)
          = Inl UnicodeDecodeError"
    unfolding process_tex_attempt [OF a]
    by (simp add: try_body_def open_read_text_def log os_path_join_def init_def exited_def
          except_FileNotFoundError_def d)
  with a b c log show ?thesis
    by simp
qed

text \<open>
  C10, amended: let \<open>msg\<close> be a non-empty stderr of the interpreter that is valid
  UTF-8, decoded. Then each \<^verbatim>\<open>FileNotFoundError\<close> of the \<^verbatim>\<open>try\<close> block is replaced by
  an \<^verbatim>\<open>Exception\<close> that holds \<open>msg\<close> only: the one for a missing \<^verbatim>\<open>texput.log\<close> after
  exit code 1, the one for the missing PDF, and one raised by the callback. And with exit
  code 1 and no \<^verbatim>\<open>texput.log\<close> the outcome is never a \<open>TexError\<close>, whatever stderr
  holds.
\<close>

theorem FileNotFoundError_replaced:
  assumes "compile_attempt e cfg self fs tempdir process fs3"
  shows "(stderr process \<noteq> [] \<and> decode_utf8 (stderr process) = Inr msg
          \<longrightarrow> (returncode process = 1 \<and> fs3 (os_path_join tempdir ''texput.log'') = None
                \<longrightarrow> fst (process_tex e cfg self (Callable cb) fs) = Inl (PyException msg))
            \<and> (returncode process \<noteq> 1
                  \<and> \<not> os_path_isfile fs3 (os_path_join tempdir (base_filename self @ ''.pdf''))
                \<longrightarrow> fst (process_tex e cfg self (Callable cb) fs) = Inl (PyException msg))
            \<and> (returncode process \<noteq> 1
                  \<and> os_path_isfile fs3 (os_path_join tempdir (base_filename self @ ''.pdf''))
                  \<and> fst (cb tempdir (base_filename self @ ''.pdf'') fs3) = Inl ex
                  \<and> is_FileNotFoundError ex
                \<longrightarrow> fst (process_tex e cfg self (Callable cb) fs) = Inl (PyException msg)))
       \<and> (returncode process = 1 \<and> fs3 (os_path_join tempdir ''texput.log'') = None
          \<longrightarrow> (case fst (process_tex e cfg self (Callable cb) fs) of
                  Inl ex' \<Rightarrow> \<not> is_TexError ex' | Inr v \<Rightarrow> False))"
proof -
  have log: "try_body self cb tempdir process fs3 =
               (Inl (FileNotFoundError (os_path_join tempdir ''texput.log'')), fs3, [])"
    if "returncode process = 1" "fs3 (os_path_join tempdir ''texput.log'') = None"
    using that by (simp add: try_body_def open_read_text_def)
  have pdf: "try_body self cb tempdir process fs3 =
               (Inl (FileNotFoundError
                       (''File '' @ os_path_join tempdir (base_filename self @ ''.pdf'')
                        @ '' not found or is not a file!'')), fs3, [])"
    if "returncode process \<noteq> 1"
      "\<not> os_path_isfile fs3 (os_path_join tempdir (base_filename self @ ''.pdf''))"
    using that by (simp add: try_body_def)
  have call: "try_body self cb tempdir process fs3 = cb tempdir (base_filename self @ ''.pdf'') fs3"
    if "returncode process \<noteq> 1"
      "os_path_isfile fs3 (os_path_join tempdir (base_filename self @ ''.pdf''))"
    using that by (simp add: try_body_def)
  have A: "fst (process_tex e cfg self (Callable cb) fs) = Inl (PyException msg)"
    if "stderr process \<noteq> []" "decode_utf8 (stderr process) = Inr msg"
      "returncode process = 1" "fs3 (os_path_join tempdir ''texput.log'') = None"
    using that by (simp add: process_tex_attempt [OF assms] log except_caught)
  have B: "fst (process_tex e cfg self (Callable cb) fs) = Inl (PyException msg)"
    if "stderr process \<noteq> []" "decode_utf8 (stderr process) = Inr msg"
      "returncode process \<noteq> 1"
      "\<not> os_path_isfile fs3 (os_path_join tempdir (base_filename self @ ''.pdf''))"
    using that by (simp add: process_tex_attempt [OF assms] pdf except_caught)
  have C: "fst (process_tex e cfg self (Callable cb) fs) = Inl (PyException msg)"
    if h: "stderr process \<noteq> []" "decode_utf8 (stderr process) = Inr msg"
      "returncode process \<noteq> 1"
      "os_path_isfile fs3 (os_path_join tempdir (base_filename self @ ''.pdf''))"
      "fst (cb tempdir (base_filename self @ ''.pdf'') fs3) = Inl ex" "is_FileNotFoundError ex"
  proof -
    obtain fs4 evs where "cb tempdir (base_filename self @ ''.pdf'') fs3 = (Inl ex, fs4, evs)"
      using h(5) by (cases "cb tempdir (base_filename self @ ''.pdf'') fs3") auto
    with h show ?thesis
      by (simp add: process_tex_attempt [OF assms] call except_caught)
  qed
  have D: "case fst (process_tex e cfg self (Callable cb) fs) of
             Inl ex' \<Rightarrow> \<not> is_TexError ex' | Inr v \<Rightarrow> False"
    if "returncode process = 1" "fs3 (os_path_join tempdir ''texput.log'') = None"
    using that
    by (auto simp: process_tex_attempt [OF assms] log except_FileNotFoundError_def
          decode_utf8_def split: sum.splits if_splits)
  from A B C D show ?thesis
    by blast
qed

text \<open>The amended C10 at work: the three places a \<^verbatim>\<open>FileNotFoundError\<close> comes
  from, each with \<^verbatim>\<open>err\<close> on stderr.\<close>

theorem FileNotFoundError_replaced_witness:
  "fst (process_tex
          (demo_env (exited 1 ''err'') [(''/tmp/tmpk3x9/report.log'', File ''! Undefined'')]
             (exited 0 []))
          unset (init ''x'' ''report'') (Callable returning_callback) demo_fs)
     = Inl (PyException ''err'')
   \<and> fst (process_tex (demo_env (exited 0 ''err'') [] (exited 0 [])) unset
            (init ''x'' ''texput'') (Callable returning_callback) demo_fs)
     = Inl (PyException ''err'')
   \<and> fst (process_tex
            (demo_env (exited 0 ''err'') [(''/tmp/tmpk3x9/texput.pdf'', File ''%PDF'')]
               (exited 0 []))
            unset (init ''x'' ''texput'') (Callable raising_callback) demo_fs)
     = Inl (PyException ''err'')"
proof -
  let ?log = "[(''/tmp/tmpk3x9/report.log'', File ''! Undefined'')]"
  let ?pdf = "[(''/tmp/tmpk3x9/texput.pdf'', File ''%PDF'')]"
  let ?R = "init ''x'' ''report''"
  let ?S = "init ''x'' ''texput''"
  let ?fsA = "demo_after ''/tmp/tmpk3x9/report.tex'' ''x'' ?log"
  let ?fsB = "demo_after ''/tmp/tmpk3x9/texput.tex'' ''x'' []"
  let ?fsC = "demo_after ''/tmp/tmpk3x9/texput.tex'' ''x'' ?pdf"
  have a: "compile_attempt (demo_env (exited 1 ''err'') ?log (exited 0 [])) unset ?R demo_fs
             ''/tmp/tmpk3x9'' (exited 1 ''err'') ?fsA"
    by (rule demo_attempt_report)
  have b: "compile_attempt (demo_env (exited 0 ''err'') [] (exited 0 [])) unset ?S demo_fs
             ''/tmp/tmpk3x9'' (exited 0 ''err'') ?fsB"
    by (rule demo_attempt)
  have c: "compile_attempt (demo_env (exited 0 ''err'') ?pdf (exited 0 [])) unset ?S demo_fs
             ''/tmp/tmpk3x9'' (exited 0 ''err'') ?fsC"
    by (rule demo_attempt)
  have err1: "stderr (exited 1 ''err'') \<noteq> [] \<and> decode_utf8 (stderr (exited 1 ''err'')) = Inr ''err''"
    and err0: "stderr (exited 0 ''err'') \<noteq> [] \<and> decode_utf8 (stderr (exited 0 ''err'')) = Inr ''err''"
    by (simp_all add: exited_def decode_utf8_def)
  have hA: "returncode (exited 1 ''err'') = 1 \<and> ?fsA (os_path_join ''/tmp/tmpk3x9'' ''texput.log'') = None"
    by (simp add: demo_defs os_path_join_def)
  have hB: "returncode (exited 0 ''err'') \<noteq> 1
            \<and> \<not> os_path_isfile ?fsB (os_path_join ''/tmp/tmpk3x9'' (base_filename ?S @ ''.pdf''))"
    by (simp add: demo_defs fs_defs)
  have hC: "returncode (exited 0 ''err'') \<noteq> 1
            \<and> os_path_isfile ?fsC (os_path_join ''/tmp/tmpk3x9'' (base_filename ?S @ ''.pdf''))
            \<and> fst (raising_callback ''/tmp/tmpk3x9'' (base_filename ?S @ ''.pdf'') ?fsC)
                = Inl (FileNotFoundError ''gone'')
            \<and> is_FileNotFoundError (FileNotFoundError ''gone'')"
    by (simp add: demo_defs fs_defs)
  from FileNotFoundError_replaced [where cb = returning_callback and msg = "''err''", OF a]
    err1 hA
  have A: "fst (process_tex (demo_env (exited 1 ''err'') ?log (exited 0 [])) unset ?R
                  (Callable returning_callback) demo_fs) = Inl (PyException ''err'')"
    by blast
  from FileNotFoundError_replaced [where cb = returning_callback and msg = "''err''", OF b]
    err0 hB
  have B: "fst (process_tex (demo_env (exited 0 ''err'') [] (exited 0 [])) unset ?S
                  (Callable returning_callback) demo_fs) = Inl (PyException ''err'')"
    by blast
  from FileNotFoundError_replaced [where cb = raising_callback and msg = "''err''"
      and ex = "FileNotFoundError ''gone''", OF c] err0 hC
  have C: "fst (process_tex (demo_env (exited 0 ''err'') ?pdf (exited 0 [])) unset ?S
                  (Callable raising_callback) demo_fs) = Inl (PyException ''err'')"
    by blast
  from A B C show ?thesis
    by simp
qed

end
